theory Spec2Isabelle
  imports Main "HOL-Library.Sublist"
begin

section \<open>Conventions of the embedding\<close>

text \<open>
  The development embeds the reconciliation core of the editor bridge: the event bus
  (\<^verbatim>\<open>eventBus.ts\<close>), the viewport manager (\<^verbatim>\<open>viewport_manager.ts\<close>), the
  typing manager and the buffer manager with its content provider.

  \<^item> Objects of the host with reference identity (documents, editors, promises,
    cancellation tokens) are references (natural numbers); what the host reports
    about them is read from a store.
  \<^item> A JavaScript \<^verbatim>\<open>Map\<close> whose iteration order the code uses is an association
    list with the \<^verbatim>\<open>Map\<close>'s own update discipline (\<open>map_set\<close>, \<open>map_delete\<close>).
  \<^item> A call that leaves the process (a backend request, a host command, a log line, a
    timer) is an entry of an effect trace, in program order. What the callee answers is
    a parameter of the function that makes the call, so a theorem holds for every answer.
  \<^item> A failure that the source provides for is a value of the answer: a number in place
    of a handle from \<^verbatim>\<open>createBuffer\<close> and \<^verbatim>\<open>openWindow\<close>, a rejected
    \<^verbatim>\<open>openTextDocument\<close> or \<^verbatim>\<open>showTextDocument\<close>, a rejected request inside a
    \<^verbatim>\<open>try\<close>. Every other awaited backend call is taken to be fulfilled.
  \<^item> An \<^verbatim>\<open>await\<close> is the sequential composition of what stands before and after it;
    where interleaving matters (the debounced layout sync) the runs are the events of a
    transition system.
\<close>

section \<open>The event bus\<close>

text \<open>
  \<^verbatim>\<open>interface Event { name; data }\<close>. The bus owns one emitter of the host; a listener
  is the closure that \<open>on\<close> builds. A handler acts on the state of its subscriber,
  which is the type \<open>'w\<close>.
\<close>

record ('n, 'd) Event =
  ev_name :: 'n
  ev_data :: 'd

type_synonym ('n, 'd, 'w) listener = "('n, 'd) Event \<Rightarrow> 'w \<Rightarrow> 'w"

record ('n, 'd, 'w) EventBus =
  emitter :: "(nat \<times> ('n, 'd, 'w) listener) list"
  next_listener :: nat

definition new_EventBus :: "('n, 'd, 'w) EventBus" where
  "new_EventBus = \<lparr>emitter = [], next_listener = 0\<rparr>"

text \<open>The host's emitter calls every registered listener, in the order of registration.\<close>

definition emitter_fire :: "(nat \<times> ('n, 'd, 'w) listener) list \<Rightarrow> ('n, 'd) Event \<Rightarrow> 'w \<Rightarrow> 'w" where
  "emitter_fire ls e w = fold (\<lambda>(i, l) w'. l e w') ls w"

text \<open>\<^verbatim>\<open>fire(name, data) { this.emitter.fire({ name, data }) }\<close>; the result is the bus
  after the call and the subscribers' state.\<close>

definition fire :: "'n \<Rightarrow> 'd \<Rightarrow> ('n, 'd, 'w) EventBus \<Rightarrow> 'w \<Rightarrow> ('n, 'd, 'w) EventBus \<times> 'w" where
  "fire nm d bus w = (bus, emitter_fire (emitter bus) \<lparr>ev_name = nm, ev_data = d\<rparr> w)"

text \<open>\<^verbatim>\<open>on(name, handler)\<close> registers
  \<^verbatim>\<open>(e) => name === e.name && handler.call(thisArg, e.data)\<close> and returns the disposable,
  here the key of the registration.\<close>

definition on :: "'n \<Rightarrow> ('d \<Rightarrow> 'w \<Rightarrow> 'w) \<Rightarrow> ('n, 'd, 'w) EventBus \<Rightarrow> nat \<times> ('n, 'd, 'w) EventBus" where
  "on nm handler bus =
     (next_listener bus,
      bus\<lparr>emitter := emitter bus @ [(next_listener bus, \<lambda>e. if nm = ev_name e then handler (ev_data e) else id)],
          next_listener := Suc (next_listener bus)\<rparr>)"

definition dispose_listener :: "nat \<Rightarrow> ('n, 'd, 'w) EventBus \<Rightarrow> ('n, 'd, 'w) EventBus" where
  "dispose_listener k bus = bus\<lparr>emitter := filter (\<lambda>(i, l). i \<noteq> k) (emitter bus)\<rparr>"

text \<open>The bus after a list of registrations, and a handler that records its call: the
  subscribers' state is then the list of calls made, each with the handler's tag and the
  data it received.\<close>

definition registered :: "('n \<times> ('d \<Rightarrow> 'w \<Rightarrow> 'w)) list \<Rightarrow> ('n, 'd, 'w) EventBus" where
  "registered regs = fold (\<lambda>(nm, h) bus. snd (on nm h bus)) regs new_EventBus"

definition recording :: "'t \<Rightarrow> 'd \<Rightarrow> ('t \<times> 'd) list \<Rightarrow> ('t \<times> 'd) list" where
  "recording tag d calls = calls @ [(tag, d)]"

subsection \<open>Dispatch is a fan-out by name\<close>

lemma emitter_fire_append:
  "emitter_fire (ls @ ms) e w = emitter_fire ms e (emitter_fire ls e w)"
  by (simp add: emitter_fire_def)

lemma emitter_on:
  "emitter (snd (on nm h bus)) =
   emitter bus @ [(next_listener bus, \<lambda>e. if nm = ev_name e then h (ev_data e) else id)]"
  by (simp add: on_def)

lemma emitter_fire_fold_on:
  "emitter_fire (emitter (fold (\<lambda>(nm, h) bus. snd (on nm h bus)) regs bus)) \<lparr>ev_name = n, ev_data = d\<rparr> w =
   fold (\<lambda>(nm, h) w'. if nm = n then h d w' else w') regs
     (emitter_fire (emitter bus) \<lparr>ev_name = n, ev_data = d\<rparr> w)"
proof (induction regs arbitrary: bus)
  case Nil
  show ?case by simp
next
  case (Cons r regs)
  obtain nm h where r: "r = (nm, h)" by (cases r)
  have step: "emitter_fire (emitter (snd (on nm h bus))) \<lparr>ev_name = n, ev_data = d\<rparr> w =
      (if nm = n then h d (emitter_fire (emitter bus) \<lparr>ev_name = n, ev_data = d\<rparr> w)
       else emitter_fire (emitter bus) \<lparr>ev_name = n, ev_data = d\<rparr> w)"
    by (simp add: emitter_on emitter_fire_append) (simp add: emitter_fire_def)
  show ?case
    using Cons.IH [of "snd (on nm h bus)"] by (simp add: r step)
qed

lemma fire_registered:
  "fire n d (registered regs) w =
   (registered regs, fold (\<lambda>(nm, h) w'. if nm = n then h d w' else w') regs w)"
  unfolding fire_def registered_def
  by (simp add: emitter_fire_fold_on) (simp add: emitter_fire_def new_EventBus_def)

lemma fold_recording:
  "fold (\<lambda>(nm, h) w'. if nm = n then h d w' else w') (map (\<lambda>(nm, t). (nm, recording t)) regs) calls =
   calls @ map (\<lambda>(nm, t). (t, d)) (filter (\<lambda>(nm, t). nm = n) regs)"
  by (induction regs arbitrary: calls) (auto simp: recording_def)

text \<open>
  Claim C7. For every event fired on the bus and every registered handler, the handler
  is called exactly when the name of the fired event equals the name it registered for,
  and it receives the fired data unchanged; firing leaves the bus (its listener
  registrations) as it was. With every handler recording its call, the calls made by one
  \<open>fire\<close> are those of the handlers registered for the fired name, in the order of
  registration, each with the fired data; the general form for arbitrary handlers is
  \<open>fire_registered\<close>.
\<close>

theorem fire_fan_out:
  "fire n d (registered (map (\<lambda>(nm, t). (nm, recording t)) regs)) [] =
     (registered (map (\<lambda>(nm, t). (nm, recording t)) regs),
      map (\<lambda>(nm, t). (t, d)) (filter (\<lambda>(nm, t). nm = n) regs))"
  by (simp add: fire_registered fold_recording)

theorem fire_fan_out_witness:
  "fire ''redraw'' (7::nat)
     (registered (map (\<lambda>(nm, t). (nm, recording t)) [(''redraw'', 1::nat), (''other'', 2), (''redraw'', 3)])) [] =
   (registered (map (\<lambda>(nm, t). (nm, recording t)) [(''redraw'', 1), (''other'', 2), (''redraw'', 3)]),
    [(1, 7), (3, 7)])"
  using fire_fan_out [of "''redraw''" "7::nat" "[(''redraw'', 1::nat), (''other'', 2), (''redraw'', 3)]"]
  by simp

section \<open>Values and containers of the host language\<close>

text \<open>
  A JavaScript number that the code obtains from \<^verbatim>\<open>parseInt\<close> may be \<^verbatim>\<open>NaN\<close>; the
  identifiers that the backend hands out (grids, windows, buffers of handles) are
  integers.
\<close>

datatype number = NaN | Num int

text \<open>\<^verbatim>\<open>a === b\<close> on numbers: \<^verbatim>\<open>NaN\<close> equals nothing.\<close>

fun strict_eq :: "number \<Rightarrow> number \<Rightarrow> bool" where
  "strict_eq (Num a) (Num b) = (a = b)"
| "strict_eq _ _ = False"

text \<open>\<^verbatim>\<open>!x\<close> for a number that may be \<^verbatim>\<open>undefined\<close>: true for \<^verbatim>\<open>undefined\<close> and \<open>0\<close>.\<close>

fun falsy :: "int option \<Rightarrow> bool" where
  "falsy None = True"
| "falsy (Some n) = (n = 0)"

text \<open>\<^verbatim>\<open>Map.prototype.set\<close>, \<^verbatim>\<open>delete\<close>, \<^verbatim>\<open>get\<close> and \<^verbatim>\<open>has\<close>: a key that is present
  keeps its place in the iteration order, a new key goes last.\<close>

fun map_set :: "'k \<Rightarrow> 'v \<Rightarrow> ('k \<times> 'v) list \<Rightarrow> ('k \<times> 'v) list" where
  "map_set k v [] = [(k, v)]"
| "map_set k v ((k', v') # m) = (if k' = k then (k, v) # m else (k', v') # map_set k v m)"

definition map_delete :: "'k \<Rightarrow> ('k \<times> 'v) list \<Rightarrow> ('k \<times> 'v) list" where
  "map_delete k m = filter (\<lambda>(k', v). k' \<noteq> k) m"

definition map_get :: "('k \<times> 'v) list \<Rightarrow> 'k \<Rightarrow> 'v option" where
  "map_get m k = map_of m k"

definition map_has :: "('k \<times> 'v) list \<Rightarrow> 'k \<Rightarrow> bool" where
  "map_has m k = (map_get m k \<noteq> None)"

lemma map_get_map_set: "map_get (map_set k v m) k' = (if k' = k then Some v else map_get m k')"
  by (induction m) (auto simp: map_get_def)

lemma map_get_map_delete: "map_get (map_delete k m) k' = (if k' = k then None else map_get m k')"
  by (induction m) (auto simp: map_get_def map_delete_def)

lemma map_has_map_set: "map_has (map_set k v m) k' = (k' = k \<or> map_has m k')"
  by (simp add: map_has_def map_get_map_set)

text \<open>The host's objects. Documents and editors are reference stable; a reference is a
  number and the store of the host gives what the object reports.\<close>

type_synonym doc_ref = nat
type_synonym editor_ref = nat
type_synonym promise = nat
type_synonym token = nat

record Uri =
  scheme :: string
  authority :: string
  uri_toString :: string

datatype EndOfLine = LF | CRLF

record TextDocument =
  uri :: Uri
  isClosed :: bool
  eol :: EndOfLine
  getText :: string

datatype TextEditorLineNumbersStyle = Off | On | Relative | Interval

record TextEditorOptions =
  insertSpaces :: bool
  tabSize :: int
  lineNumbers :: TextEditorLineNumbersStyle

record Position =
  pos_line :: int
  pos_character :: int

record Range =
  range_start :: Position
  range_end :: Position

record TextEditor =
  document :: doc_ref
  viewColumn :: "int option"
  options :: TextEditorOptions
  selection_active :: Position
  visibleRanges :: "Range list"

text \<open>What leaves the process. A log line carries its level and the text of its template;
  a backend request carries its method and arguments.\<close>

datatype log_level = debug | warn | error

datatype rpc_arg = AInt int | ANum number | ABool bool | AStr string | AStrs "string list" | ANums "number list"

type_synonym request = "string \<times> rpc_arg list"

text \<open>The argument of \<^verbatim>\<open>workspace.openTextDocument\<close>: \<^verbatim>\<open>Uri.parse(name, true)\<close>, or
  \<^verbatim>\<open>Uri.file(name).with({ scheme, authority: id.toString() })\<close>, which keeps the number
  \<^verbatim>\<open>id\<close> in place of its rendering.\<close>

datatype uri_request = Uri_parse string | Uri_file_with string string number

text \<open>What a timer set by the buffer manager does when it fires.\<close>

datatype delayed = adjust_cursor int number doc_ref editor_ref | close_window int number

datatype bm_effect =
    logger log_level string
  | nvim_call string "rpc_arg list"
  | callAtomic "request list"
  | buffer_listen number
  | buffer_attach number
  | onBufferInit number doc_ref
  | updateNeovimCursorPosition editor_ref Position
  | openTextDocument uri_request
  | showTextDocument doc_ref
  | set_editor_options editor_ref bool int
  | setTimeout delayed int
  | debounced string int "rpc_arg list"
  | executeCommand string

section \<open>The buffer manager: state and lookups\<close>

record TabConfiguration =
  tc_tabSize :: int
  tc_insertSpaces :: bool

text \<open>
  The fields of \<^verbatim>\<open>BufferManager\<close>, followed by the stores of the objects it allocates:
  the cancellation tokens whose cancellation was requested, the promises resolved so far
  (one entry for each \<^verbatim>\<open>resolve()\<close>, the latest last), the next fresh references, and
  the trace of what the manager has sent out.
\<close>

record BufferManager =
  syncLayoutPromise :: "promise option"
  syncLayoutCancelTokenSource :: token
  syncActiveEditorPromise :: "promise option"
  externalTextDocuments :: "doc_ref set"
  textDocumentToBufferId :: "(doc_ref \<times> number) list"
  textEditorToWinId :: "(editor_ref \<times> int) list"
  winIdToEditor :: "(int \<times> editor_ref) list"
  grids :: "(int \<times> int) list"
  editorTabConfiguration :: "(editor_ref \<times> TabConfiguration) list"
  cancelled :: "token set"
  resolved :: "promise list"
  next_token :: token
  next_promise :: promise
  trace :: "bm_effect list"

text \<open>The manager as its constructor leaves it: no promise, and the first token source
  (token \<open>0\<close>), not cancelled.\<close>

definition new_BufferManager :: BufferManager where
  "new_BufferManager =
     \<lparr>syncLayoutPromise = None, syncLayoutCancelTokenSource = 0, syncActiveEditorPromise = None,
      externalTextDocuments = {}, textDocumentToBufferId = [], textEditorToWinId = [],
      winIdToEditor = [], grids = [], editorTabConfiguration = [],
      cancelled = {}, resolved = [], next_token = 1, next_promise = 0, trace = []\<rparr>"

text \<open>\<^verbatim>\<open>[...this.grids].reverse().find(([, conf]) => conf.winId === winId)\<close>\<close>

definition getGridIdForWinId :: "BufferManager \<Rightarrow> int \<Rightarrow> int option" where
  "getGridIdForWinId bm winId =
     (case find (\<lambda>(grid, win). win = winId) (rev (grids bm)) of
        None \<Rightarrow> None
      | Some grid \<Rightarrow> Some (fst grid))"

definition getWinIdForGridId :: "BufferManager \<Rightarrow> int \<Rightarrow> int option" where
  "getWinIdForGridId bm gridId = map_get (grids bm) gridId"

definition getWinIdForTextEditor :: "BufferManager \<Rightarrow> editor_ref \<Rightarrow> int option" where
  "getWinIdForTextEditor bm editor = map_get (textEditorToWinId bm) editor"

text \<open>\<^verbatim>\<open>this.getGridIdForWinId(this.getWinIdForTextEditor(editor) || 0)\<close>\<close>

definition getGridIdFromEditor :: "BufferManager \<Rightarrow> editor_ref \<Rightarrow> int option" where
  "getGridIdFromEditor bm editor =
     getGridIdForWinId bm (case getWinIdForTextEditor bm editor of None \<Rightarrow> 0 | Some w \<Rightarrow> w)"

definition getEditorFromWinId :: "BufferManager \<Rightarrow> int \<Rightarrow> editor_ref option" where
  "getEditorFromWinId bm winId =
     (case find (\<lambda>(editor, w). w = winId) (textEditorToWinId bm) of
        Some noColumnEditor \<Rightarrow> Some (fst noColumnEditor)
      | None \<Rightarrow> map_get (winIdToEditor bm) winId)"

definition getEditorFromGridId :: "BufferManager \<Rightarrow> int \<Rightarrow> editor_ref option" where
  "getEditorFromGridId bm gridId =
     (let winId = getWinIdForGridId bm gridId
      in if falsy winId then None else getEditorFromWinId bm (the winId))"

definition getBufferIdForTextDocument :: "BufferManager \<Rightarrow> doc_ref \<Rightarrow> number option" where
  "getBufferIdForTextDocument bm doc = map_get (textDocumentToBufferId bm) doc"

definition getTextDocumentForBufferId :: "(doc_ref \<Rightarrow> TextDocument) \<Rightarrow> BufferManager \<Rightarrow> number \<Rightarrow> doc_ref option" where
  "getTextDocumentForBufferId docs bm n =
     (case find (\<lambda>(d, bufId). strict_eq n bufId) (textDocumentToBufferId bm) of
        None \<Rightarrow> None
      | Some entry \<Rightarrow> if isClosed (docs (fst entry)) then None else Some (fst entry))"

text \<open>The part of a redraw batch that the managers read. \<^verbatim>\<open>win_pos\<close> and
  \<^verbatim>\<open>win_external_pos\<close> carry \<open>(grid, win.id)\<close>, \<^verbatim>\<open>win_viewport\<close> carries
  \<open>(grid, topline, botline, curline, curcol)\<close>; the other fields of the tuples are not
  read.\<close>

datatype redraw_event =
    win_external_pos "(int \<times> int) list"
  | win_pos "(int \<times> int) list"
  | win_close "int list"
  | win_viewport "(int \<times> int \<times> int \<times> int \<times> int) list"
  | grid_destroy "int list"
  | other_redraw string

fun BufferManager_handleRedraw1 :: "redraw_event \<Rightarrow> BufferManager \<Rightarrow> BufferManager" where
  "BufferManager_handleRedraw1 (win_external_pos args) bm =
     bm\<lparr>grids := fold (\<lambda>(grid, win). map_set grid win) args (grids bm)\<rparr>"
| "BufferManager_handleRedraw1 (win_pos args) bm =
     bm\<lparr>grids := fold (\<lambda>(grid, win). map_set grid win) args (grids bm)\<rparr>"
| "BufferManager_handleRedraw1 (win_close args) bm =
     bm\<lparr>grids := fold map_delete args (grids bm)\<rparr>"
| "BufferManager_handleRedraw1 _ bm = bm"

definition BufferManager_handleRedraw :: "redraw_event list \<Rightarrow> BufferManager \<Rightarrow> BufferManager" where
  "BufferManager_handleRedraw batch bm = fold BufferManager_handleRedraw1 batch bm"

section \<open>The viewport manager\<close>

record Viewport =
  line :: int
  col :: int
  topline :: int
  botline :: int
  leftcol :: int
  skipcol :: int

definition new_Viewport :: Viewport where
  "new_Viewport = \<lparr>line = 0, col = 0, topline = 0, botline = 0, leftcol = 0, skipcol = 0\<rparr>"

record ViewportManager =
  gridViewport :: "(int \<times> Viewport) list"

datatype viewport_effect =
    Log log_level string
  | client_lua string "int list"

text \<open>\<^verbatim>\<open>getViewport\<close> creates the entry on first reference; the result is the viewport
  and the manager after the call.\<close>

definition getViewport :: "int \<Rightarrow> ViewportManager \<Rightarrow> Viewport \<times> ViewportManager" where
  "getViewport gridId vm =
     (if \<not> map_has (gridViewport vm) gridId
      then (new_Viewport, vm\<lparr>gridViewport := map_set gridId new_Viewport (gridViewport vm)\<rparr>)
      else (the (map_get (gridViewport vm) gridId), vm))"

record SaveView =
  sv_lnum :: int
  sv_col :: int
  sv_coladd :: int
  sv_curswant :: int
  sv_topline :: int
  sv_topfill :: int
  sv_leftcol :: int
  sv_skipcol :: int

text \<open>The case \<^verbatim>\<open>"window-scroll"\<close> of \<^verbatim>\<open>handleExtensionRequest\<close>; \<^verbatim>\<open>view\<close> is the
  object held by the map, so the assignments to its fields update the entry.\<close>

definition window_scroll :: "BufferManager \<Rightarrow> int \<Rightarrow> SaveView \<Rightarrow> ViewportManager \<Rightarrow> viewport_effect list \<times> ViewportManager" where
  "window_scroll bm winId saveView vm =
     (let gridId = getGridIdForWinId bm winId
      in if falsy gridId
         then ([Log warn ''Unable to update scrolled view. No grid for winId''], vm)
         else (let (view, vm') = getViewport (the gridId) vm
               in ([], vm'\<lparr>gridViewport :=
                       map_set (the gridId) (view\<lparr>leftcol := sv_leftcol saveView, skipcol := sv_skipcol saveView\<rparr>)
                         (gridViewport vm')\<rparr>)))"

datatype viewport_request = window_scroll_args int SaveView | other_args

definition ViewportManager_handleExtensionRequest ::
  "BufferManager \<Rightarrow> string \<Rightarrow> viewport_request \<Rightarrow> ViewportManager \<Rightarrow> viewport_effect list \<times> ViewportManager" where
  "ViewportManager_handleExtensionRequest bm nm args vm =
     (case args of
        window_scroll_args winId saveView \<Rightarrow>
          if nm = ''window-scroll'' then window_scroll bm winId saveView vm else ([], vm)
      | other_args \<Rightarrow> ([], vm))"

fun ViewportManager_handleRedraw1 :: "redraw_event \<Rightarrow> ViewportManager \<Rightarrow> ViewportManager" where
  "ViewportManager_handleRedraw1 (win_viewport args) vm =
     fold (\<lambda>(grid, tl, bl, curline, curcol) vm0.
             (let (view, vm') = getViewport grid vm0
              in vm'\<lparr>gridViewport :=
                     map_set grid (view\<lparr>topline := tl, botline := bl, line := curline, col := curcol\<rparr>)
                       (gridViewport vm')\<rparr>)) args vm"
| "ViewportManager_handleRedraw1 (grid_destroy args) vm =
     vm\<lparr>gridViewport := fold map_delete args (gridViewport vm)\<rparr>"
| "ViewportManager_handleRedraw1 _ vm = vm"

definition ViewportManager_handleRedraw :: "redraw_event list \<Rightarrow> ViewportManager \<Rightarrow> ViewportManager" where
  "ViewportManager_handleRedraw batch vm = fold ViewportManager_handleRedraw1 batch vm"

text \<open>
  \<^verbatim>\<open>scrollNeovim(editor)\<close>. The parameters are what the method reads from its
  collaborators: \<^verbatim>\<open>modeManager.isInsertMode\<close>, \<^verbatim>\<open>config.neovimViewportHeightExtend\<close>,
  the buffer manager and the host's store of editors. The result is the list of
  requests sent to the backend (none, or one \<^verbatim>\<open>scroll_viewport\<close>).
\<close>

definition scrollNeovim ::
  "bool \<Rightarrow> int \<Rightarrow> BufferManager \<Rightarrow> (editor_ref \<Rightarrow> TextEditor) \<Rightarrow> ViewportManager \<Rightarrow> editor_ref option \<Rightarrow> viewport_effect list" where
  "scrollNeovim isInsertMode neovimViewportHeightExtend bm editors vm editor =
     (if editor = None \<or> isInsertMode then []
      else (let ranges = visibleRanges (editors (the editor))
            in if length ranges = 0 \<or> pos_line (range_end (hd ranges)) - pos_line (range_start (hd ranges)) \<le> 1
               then []
               else (let startLine = pos_line (range_start (hd ranges)) - neovimViewportHeightExtend;
                         endLine = pos_line (range_end (last ranges)) + int (length ranges) + neovimViewportHeightExtend;
                         currentLine = pos_line (selection_active (editors (the editor)));
                         gridId = getGridIdFromEditor bm (the editor)
                     in if gridId = None then []
                        else (case map_get (gridViewport vm) (the gridId) of
                                None \<Rightarrow> []
                              | Some viewport \<Rightarrow>
                                  if startLine \<noteq> topline viewport \<and> currentLine = line viewport
                                  then [client_lua ''require('vscode-neovim.api').scroll_viewport(...)''
                                          [max startLine 0, endLine]]
                                  else []))))"

subsection \<open>Window scroll and scroll correction\<close>

definition viewport_of :: "ViewportManager \<Rightarrow> int \<Rightarrow> Viewport" where
  "viewport_of vm gridId = fst (getViewport gridId vm)"

lemma viewport_of_alt:
  "viewport_of vm g = (case map_get (gridViewport vm) g of None \<Rightarrow> new_Viewport | Some v \<Rightarrow> v)"
  by (auto simp: viewport_of_def getViewport_def map_has_def)

lemma gridViewport_getViewport:
  "map_get (gridViewport (snd (getViewport g vm))) g' =
   (if g' = g \<and> map_get (gridViewport vm) g = None then Some new_Viewport else map_get (gridViewport vm) g')"
  by (auto simp: getViewport_def map_get_map_set map_has_def)

lemma window_scroll_entries:
  "map_get (gridViewport (snd (window_scroll bm winId saveView vm))) g' =
   (case getGridIdForWinId bm winId of
      None \<Rightarrow> map_get (gridViewport vm) g'
    | Some g \<Rightarrow>
        if g = 0 \<or> g' \<noteq> g then map_get (gridViewport vm) g'
        else Some ((viewport_of vm g)\<lparr>leftcol := sv_leftcol saveView, skipcol := sv_skipcol saveView\<rparr>))"
  by (auto simp: window_scroll_def Let_def split_def map_get_map_set gridViewport_getViewport viewport_of_def
      split: option.splits)

lemma window_scroll_grid_zero:
  "getGridIdForWinId bm winId = Some 0 \<Longrightarrow> snd (window_scroll bm winId saveView vm) = vm"
  by (simp add: window_scroll_def)

text \<open>
  Claim C6. Handling a backend window-scroll notification for a window whose grid is
  known updates only the \<open>leftcol\<close> and \<open>skipcol\<close> fields of that grid's viewport: its
  \<open>line\<close>, \<open>col\<close>, \<open>topline\<close> and \<open>botline\<close> are as before (read through
  \<^verbatim>\<open>getViewport\<close>, which answers a fresh viewport for a grid not yet tracked), and the
  entry of every other grid is as before; if no grid is known for the window, the
  manager is unchanged. The two fields take the notified values for every grid id but
  \<open>0\<close>, which the guard \<^verbatim>\<open>!gridId\<close> treats as unknown (\<open>window_scroll_grid_zero\<close>).
\<close>

theorem window_scroll_frame:
  "(getGridIdForWinId bm winId = None \<longrightarrow>
      snd (ViewportManager_handleExtensionRequest bm ''window-scroll'' (window_scroll_args winId saveView) vm) = vm) \<and>
   (\<forall>g. getGridIdForWinId bm winId = Some g \<longrightarrow>
      (let vm' = snd (ViewportManager_handleExtensionRequest bm ''window-scroll'' (window_scroll_args winId saveView) vm)
       in (\<forall>g'. g' \<noteq> g \<longrightarrow> map_get (gridViewport vm') g' = map_get (gridViewport vm) g') \<and>
          line (viewport_of vm' g) = line (viewport_of vm g) \<and>
          col (viewport_of vm' g) = col (viewport_of vm g) \<and>
          topline (viewport_of vm' g) = topline (viewport_of vm g) \<and>
          botline (viewport_of vm' g) = botline (viewport_of vm g) \<and>
          (g \<noteq> 0 \<longrightarrow> leftcol (viewport_of vm' g) = sv_leftcol saveView \<and>
                     skipcol (viewport_of vm' g) = sv_skipcol saveView)))"
proof -
  let ?vm' = "snd (ViewportManager_handleExtensionRequest bm ''window-scroll'' (window_scroll_args winId saveView) vm)"
  have h: "?vm' = snd (window_scroll bm winId saveView vm)"
    by (simp add: ViewportManager_handleExtensionRequest_def)
  have none: "getGridIdForWinId bm winId = None \<Longrightarrow> ?vm' = vm"
    by (simp add: h window_scroll_def)
  have some: "line (viewport_of ?vm' g) = line (viewport_of vm g) \<and>
          col (viewport_of ?vm' g) = col (viewport_of vm g) \<and>
          topline (viewport_of ?vm' g) = topline (viewport_of vm g) \<and>
          botline (viewport_of ?vm' g) = botline (viewport_of vm g) \<and>
          (g \<noteq> 0 \<longrightarrow> leftcol (viewport_of ?vm' g) = sv_leftcol saveView \<and>
                     skipcol (viewport_of ?vm' g) = sv_skipcol saveView)"
    if "getGridIdForWinId bm winId = Some g" for g
    using that unfolding h viewport_of_alt [of "snd (window_scroll bm winId saveView vm)"] window_scroll_entries
    by (simp add: viewport_of_alt split: option.splits)
  have other: "map_get (gridViewport ?vm') g' = map_get (gridViewport vm) g'"
    if "getGridIdForWinId bm winId = Some g" "g' \<noteq> g" for g g'
    using that unfolding h window_scroll_entries by simp
  show ?thesis
    using none some other by (simp add: Let_def)
qed


theorem window_scroll_frame_witness:
  "getGridIdForWinId (new_BufferManager\<lparr>grids := [(2, 1000)]\<rparr>) 1000 = Some 2 \<and>
   (let vm = \<lparr>gridViewport = [(2, \<lparr>line = 4, col = 1, topline = 2, botline = 30, leftcol = 0, skipcol = 0\<rparr>),
                               (3, \<lparr>line = 9, col = 0, topline = 7, botline = 20, leftcol = 3, skipcol = 0\<rparr>)]\<rparr>;
        vm' = snd (ViewportManager_handleExtensionRequest (new_BufferManager\<lparr>grids := [(2, 1000)]\<rparr>)
                ''window-scroll''
                (window_scroll_args 1000 \<lparr>sv_lnum = 5, sv_col = 1, sv_coladd = 0, sv_curswant = 1, sv_topline = 3,
                                          sv_topfill = 0, sv_leftcol = 5, sv_skipcol = 1\<rparr>) vm)
    in map_get (gridViewport vm') 3 = map_get (gridViewport vm) 3 \<and>
       line (viewport_of vm' 2) = line (viewport_of vm 2) \<and>
       col (viewport_of vm' 2) = col (viewport_of vm 2) \<and>
       topline (viewport_of vm' 2) = topline (viewport_of vm 2) \<and>
       botline (viewport_of vm' 2) = botline (viewport_of vm 2) \<and>
       leftcol (viewport_of vm' 2) = 5 \<and> skipcol (viewport_of vm' 2) = 1)"
proof -
  have g: "getGridIdForWinId (new_BufferManager\<lparr>grids := [(2, 1000)]\<rparr>) 1000 = Some 2"
    by (simp add: getGridIdForWinId_def new_BufferManager_def)
  have ne: "(3::int) \<noteq> 2" "(2::int) \<noteq> 0" by simp_all
  show ?thesis
    using g ne
      window_scroll_frame [of "new_BufferManager\<lparr>grids := [(2, 1000)]\<rparr>" 1000
        "\<lparr>sv_lnum = 5, sv_col = 1, sv_coladd = 0, sv_curswant = 1, sv_topline = 3,
          sv_topfill = 0, sv_leftcol = 5, sv_skipcol = 1\<rparr>"
        "\<lparr>gridViewport = [(2, \<lparr>line = 4, col = 1, topline = 2, botline = 30, leftcol = 0, skipcol = 0\<rparr>),
                          (3, \<lparr>line = 9, col = 0, topline = 7, botline = 20, leftcol = 3, skipcol = 0\<rparr>)]\<rparr>"]
    by (simp add: Let_def)
qed



lemma scrollNeovim_cases:
  "scrollNeovim ins ext bm editors vm editor =
   (case editor of
      None \<Rightarrow> []
    | Some e \<Rightarrow>
       (case visibleRanges (editors e) of
          [] \<Rightarrow> []
        | r # rs \<Rightarrow>
           (case getGridIdFromEditor bm e of
              None \<Rightarrow> []
            | Some g \<Rightarrow>
               (case map_get (gridViewport vm) g of
                  None \<Rightarrow> []
                | Some vp \<Rightarrow>
                    if \<not> ins \<and> 1 < pos_line (range_end r) - pos_line (range_start r) \<and>
                       pos_line (range_start r) - ext \<noteq> topline vp \<and>
                       pos_line (selection_active (editors e)) = line vp
                    then [client_lua ''require('vscode-neovim.api').scroll_viewport(...)''
                            [max (pos_line (range_start r) - ext) 0,
                             pos_line (range_end (last (r # rs))) + int (length (r # rs)) + ext]]
                    else []))))"
  by (auto simp: scrollNeovim_def Let_def split: option.splits list.splits)

text \<open>
  Claim C5. \<^verbatim>\<open>scrollNeovim\<close> sends a scroll correction to the backend only when the
  editor is not null, the backend is not in insert mode, the first visible range spans
  more than one line (its end line minus its start line exceeds \<open>1\<close>), a grid id is found
  for the editor, a viewport is tracked for that grid, the target top line (visible start
  minus the configured extension) differs from the tracked top line and the cursor line
  of the editor equals the tracked cursor line; the top line sent is floored at \<open>0\<close>. The
  conditions are also sufficient, at most one request is sent, and its arguments are the
  floored top line and the bottom line.
\<close>

theorem scrollNeovim_request:
  "(req \<in> set (scrollNeovim ins ext bm editors vm editor) \<longleftrightarrow>
     (\<exists>e g vp.
        editor = Some e \<and> \<not> ins \<and>
        visibleRanges (editors e) \<noteq> [] \<and>
        1 < pos_line (range_end (hd (visibleRanges (editors e)))) - pos_line (range_start (hd (visibleRanges (editors e)))) \<and>
        getGridIdFromEditor bm e = Some g \<and>
        map_get (gridViewport vm) g = Some vp \<and>
        pos_line (range_start (hd (visibleRanges (editors e)))) - ext \<noteq> topline vp \<and>
        pos_line (selection_active (editors e)) = line vp \<and>
        req = client_lua ''require('vscode-neovim.api').scroll_viewport(...)''
                [max (pos_line (range_start (hd (visibleRanges (editors e)))) - ext) 0,
                 pos_line (range_end (last (visibleRanges (editors e)))) + int (length (visibleRanges (editors e))) + ext])) \<and>
   length (scrollNeovim ins ext bm editors vm editor) \<le> 1 \<and>
   (\<forall>code top bot. client_lua code [top, bot] \<in> set (scrollNeovim ins ext bm editors vm editor) \<longrightarrow> 0 \<le> top)"
proof (cases editor)
  case None
  then show ?thesis by (simp add: scrollNeovim_cases)
next
  case (Some e)
  note e = this
  show ?thesis
  proof (cases "visibleRanges (editors e)")
    case Nil
    then show ?thesis by (simp add: scrollNeovim_cases e)
  next
    case (Cons r rs)
    note rs = this
    show ?thesis
    proof (cases "getGridIdFromEditor bm e")
      case None
      then show ?thesis by (simp add: scrollNeovim_cases e rs)
    next
      case (Some g)
      note g = this
      show ?thesis
      proof (cases "map_get (gridViewport vm) g")
        case None
        then show ?thesis by (simp add: scrollNeovim_cases e rs g)
      next
        case (Some vp)
        then show ?thesis by (simp add: scrollNeovim_cases e rs g) linarith
      qed
    qed
  qed
qed


theorem scrollNeovim_request_witness:
  "client_lua ''require('vscode-neovim.api').scroll_viewport(...)'' [0, 91] \<in>
     set (scrollNeovim False 50
            (new_BufferManager\<lparr>textEditorToWinId := [(0, 1000)], grids := [(2, 1000)]\<rparr>)
            (\<lambda>r. \<lparr>document = 0, viewColumn = Some 1,
                   options = \<lparr>insertSpaces = True, tabSize = 4, lineNumbers = On\<rparr>,
                   selection_active = \<lparr>pos_line = 15, pos_character = 0\<rparr>,
                   visibleRanges = [\<lparr>range_start = \<lparr>pos_line = 20, pos_character = 0\<rparr>,
                                     range_end = \<lparr>pos_line = 40, pos_character = 0\<rparr>\<rparr>]\<rparr>)
            \<lparr>gridViewport = [(2, \<lparr>line = 15, col = 0, topline = 10, botline = 30, leftcol = 0, skipcol = 0\<rparr>)]\<rparr>
            (Some 0))"
proof -
  have g: "getGridIdFromEditor (new_BufferManager\<lparr>textEditorToWinId := [(0, 1000)], grids := [(2, 1000)]\<rparr>) 0 = Some 2"
    by (simp add: getGridIdFromEditor_def getGridIdForWinId_def getWinIdForTextEditor_def map_get_def
        new_BufferManager_def)
  have v: "map_get [(2::int, \<lparr>line = 15, col = 0, topline = 10, botline = 30, leftcol = 0, skipcol = 0\<rparr>)] 2 =
           Some \<lparr>line = 15, col = 0, topline = 10, botline = 30, leftcol = 0, skipcol = 0\<rparr>"
    by (simp add: map_get_def)
  show ?thesis
    using g v
      scrollNeovim_request [of "client_lua ''require('vscode-neovim.api').scroll_viewport(...)'' [0, 91]" False 50
        "new_BufferManager\<lparr>textEditorToWinId := [(0, 1000)], grids := [(2, 1000)]\<rparr>"
        "\<lambda>r. \<lparr>document = 0, viewColumn = Some 1,
                   options = \<lparr>insertSpaces = True, tabSize = 4, lineNumbers = On\<rparr>,
                   selection_active = \<lparr>pos_line = 15, pos_character = 0\<rparr>,
                   visibleRanges = [\<lparr>range_start = \<lparr>pos_line = 20, pos_character = 0\<rparr>,
                                     range_end = \<lparr>pos_line = 40, pos_character = 0\<rparr>\<rparr>]\<rparr>"
        "\<lparr>gridViewport = [(2, \<lparr>line = 15, col = 0, topline = 10, botline = 30, leftcol = 0, skipcol = 0\<rparr>)]\<rparr>"
        "Some 0"]
    by simp
qed


section \<open>The typing manager\<close>

text \<open>
  A JavaScript string is a sequence of UTF-16 code units; the type of the code units is
  the parameter \<open>'c\<close>. A disposable that is present is \<open>True\<close>.
\<close>

record 'c TypingManager =
  typeHandlerDisposable :: bool
  replacePrevCharHandlerDisposable :: bool
  isExitingInsertMode :: bool
  neovimEnable :: bool
  isEnteringInsertMode :: bool
  pendingKeysAfterExit :: "'c list"
  pendingKeysAfterEnter :: "'c list"
  compositeEscapeFirstPressTimestamp :: "int option"
  isInComposition :: bool
  composingText :: "'c list"

definition new_TypingManager :: "'c TypingManager" where
  "new_TypingManager =
     \<lparr>typeHandlerDisposable = True, replacePrevCharHandlerDisposable = True,
      isExitingInsertMode = False, neovimEnable = True, isEnteringInsertMode = False,
      pendingKeysAfterExit = [], pendingKeysAfterEnter = [],
      compositeEscapeFirstPressTimestamp = None, isInComposition = False, composingText = []\<rparr>"

datatype 'c typing_effect =
    client_input "'c list"
  | default_type "'c list"

definition disposeType :: "'c TypingManager \<Rightarrow> 'c TypingManager" where
  "disposeType tm = (if typeHandlerDisposable tm then tm\<lparr>typeHandlerDisposable := False\<rparr> else tm)"

definition disposeReplacePrevChar :: "'c TypingManager \<Rightarrow> 'c TypingManager" where
  "disposeReplacePrevChar tm =
     (if replacePrevCharHandlerDisposable tm then tm\<lparr>replacePrevCharHandlerDisposable := False\<rparr> else tm)"

definition registerType :: "'c TypingManager \<Rightarrow> 'c TypingManager" where
  "registerType tm = (if \<not> typeHandlerDisposable tm then tm\<lparr>typeHandlerDisposable := True\<rparr> else tm)"

definition registerReplacePrevChar :: "'c TypingManager \<Rightarrow> 'c TypingManager" where
  "registerReplacePrevChar tm =
     (if \<not> replacePrevCharHandlerDisposable tm then tm\<lparr>replacePrevCharHandlerDisposable := True\<rparr> else tm)"

text \<open>
  \<^verbatim>\<open>onVSCodeType\<close>. The parameters are \<^verbatim>\<open>normalizeInputString\<close> (of \<^verbatim>\<open>utils\<close>), what
  the mode manager reports and the answer of \<^verbatim>\<open>(await this.client.mode).blocking\<close>, which
  is asked for in the fourth branch only.
\<close>

definition onVSCodeType ::
  "('c list \<Rightarrow> bool \<Rightarrow> 'c list) \<Rightarrow> bool \<Rightarrow> bool \<Rightarrow> bool \<Rightarrow> 'c list \<Rightarrow> 'c TypingManager \<Rightarrow>
   'c typing_effect list \<times> 'c TypingManager" where
  "onVSCodeType normalizeInputString isInsertMode isRecordingInInsertMode blocking type_text tm =
     (if isEnteringInsertMode tm then
        ([], tm\<lparr>pendingKeysAfterEnter := pendingKeysAfterEnter tm @ type_text\<rparr>)
      else if isExitingInsertMode tm then
        ([], tm\<lparr>pendingKeysAfterExit := pendingKeysAfterExit tm @ type_text\<rparr>)
      else if isInComposition tm then
        ([], tm\<lparr>composingText := composingText tm @ type_text\<rparr>)
      else if isInsertMode \<and> \<not> isRecordingInInsertMode then
        (if blocking then
           ([client_input (normalizeInputString type_text (\<not> isRecordingInInsertMode))], tm)
         else
           ([default_type type_text], disposeReplacePrevChar (disposeType tm)))
      else
        ([client_input (normalizeInputString type_text (\<not> isRecordingInInsertMode))], tm))"

text \<open>\<^verbatim>\<open>String.prototype.substring(0, n)\<close>: a negative \<open>n\<close> counts as \<open>0\<close>, and \<open>n\<close> beyond
  the length as the length.\<close>

definition substring0 :: "'c list \<Rightarrow> int \<Rightarrow> 'c list" where
  "substring0 s n = take (nat n) s"

definition onReplacePreviousChar :: "'c list \<Rightarrow> int \<Rightarrow> 'c TypingManager \<Rightarrow> 'c TypingManager" where
  "onReplacePreviousChar type_text replaceCharCnt tm =
     (if isInComposition tm
      then tm\<lparr>composingText :=
                substring0 (composingText tm) (int (length (composingText tm)) - replaceCharCnt) @ type_text\<rparr>
      else tm)"

definition onCompositionStart :: "'c TypingManager \<Rightarrow> 'c TypingManager" where
  "onCompositionStart tm = tm\<lparr>isInComposition := True\<rparr>"

definition onCompositionEnd ::
  "('c list \<Rightarrow> bool \<Rightarrow> 'c list) \<Rightarrow> bool \<Rightarrow> bool \<Rightarrow> 'c TypingManager \<Rightarrow> 'c typing_effect list \<times> 'c TypingManager" where
  "onCompositionEnd normalizeInputString isInsertMode isRecordingInInsertMode tm =
     (let tm1 = tm\<lparr>isInComposition := False\<rparr>;
          sent = (if \<not> isInsertMode
                  then [client_input (normalizeInputString (composingText tm1) (\<not> isRecordingInInsertMode))]
                  else [])
      in (sent, tm1\<lparr>composingText := []\<rparr>))"

subsection \<open>The end of a composition\<close>

text \<open>
  Claim C8. When a composition ends, the composing flag is cleared; if the backend is
  not in insert mode the accumulated text is forwarded to the backend as input (through
  \<^verbatim>\<open>normalizeInputString\<close>), otherwise nothing is forwarded; in both cases the
  accumulator is reset to the empty string. The accumulator is built during the
  composition: a typed key is appended to it (unless the manager is entering or leaving
  insert mode, when the key goes to the pending keys of that transition), and
  replace-previous-character replaces its last \<open>n\<close> code units by the new text.
\<close>

theorem onCompositionEnd_forwards:
  "isInComposition (snd (onCompositionEnd norm ins isRec tm)) = False \<and>
   composingText (snd (onCompositionEnd norm ins isRec tm)) = [] \<and>
   fst (onCompositionEnd norm ins isRec tm) =
     (if ins then [] else [client_input (norm (composingText tm) (\<not> isRec))]) \<and>
   (isInComposition tm \<and> \<not> isEnteringInsertMode tm \<and> \<not> isExitingInsertMode tm \<longrightarrow>
      onVSCodeType norm ins isRec blocking keys tm = ([], tm\<lparr>composingText := composingText tm @ keys\<rparr>)) \<and>
   (isInComposition tm \<longrightarrow>
      onReplacePreviousChar keys (int n) tm =
        tm\<lparr>composingText := take (length (composingText tm) - n) (composingText tm) @ keys\<rparr>)"
proof -
  have sub: "substring0 s (int (length s) - int n) = take (length s - n) s" for s :: "'a list"
    by (simp add: substring0_def nat_diff_distrib')
  show ?thesis
    by (simp add: onCompositionEnd_def onVSCodeType_def onReplacePreviousChar_def sub Let_def)
qed

theorem onCompositionEnd_forwards_witness:
  "(let tm0 = onCompositionStart (new_TypingManager :: char TypingManager);
        tm1 = snd (onVSCodeType (\<lambda>s w. s) False False False ''nih'' tm0);
        tm2 = onReplacePreviousChar ''ni'' 3 tm1;
        r = onCompositionEnd (\<lambda>s w. s) False False tm2
    in composingText tm2 = ''ni'' \<and> fst r = [client_input ''ni''] \<and>
       composingText (snd r) = [] \<and> isInComposition (snd r) = False)"
proof -
  let ?tm0 = "onCompositionStart (new_TypingManager :: char TypingManager)"
  have c0: "isInComposition ?tm0 \<and> \<not> isEnteringInsertMode ?tm0 \<and> \<not> isExitingInsertMode ?tm0"
    by (simp add: onCompositionStart_def new_TypingManager_def)
  have t0: "composingText ?tm0 = []"
    by (simp add: onCompositionStart_def new_TypingManager_def)
  show ?thesis
    using c0 t0
      onCompositionEnd_forwards [of "\<lambda>s w. s" False False ?tm0 False "''nih''" 3]
      onCompositionEnd_forwards [of "\<lambda>s w. s" False False "?tm0\<lparr>composingText := ''nih''\<rparr>" False "''ni''" 3]
      onCompositionEnd_forwards [of "\<lambda>s w. s" False False "?tm0\<lparr>composingText := ''ni''\<rparr>" False "''''" 0]
    by (simp add: Let_def)
qed


section \<open>The buffer manager: operations\<close>

subsection \<open>Strings\<close>

text \<open>\<^verbatim>\<open>startsWith\<close> is \<^const>\<open>prefix\<close>. \<^verbatim>\<open>includes\<close> (the test of the regular expression
  \<^verbatim>\<open>/:\/\//\<close> is the search for \<^verbatim>\<open>://\<close>), \<^verbatim>\<open>split\<close> at a non-empty separator and
  \<^verbatim>\<open>join\<close>:\<close>

fun str_includes :: "string \<Rightarrow> string \<Rightarrow> bool" where
  "str_includes sub [] = (sub = [])"
| "str_includes sub (c # cs) = (prefix sub (c # cs) \<or> str_includes sub cs)"

function split_acc :: "string \<Rightarrow> string \<Rightarrow> string \<Rightarrow> string list" where
  "split_acc sep acc [] = [rev acc]"
| "split_acc sep acc (c # cs) =
     (if sep \<noteq> [] \<and> prefix sep (c # cs)
      then rev acc # split_acc sep [] (drop (length sep) (c # cs))
      else split_acc sep (c # acc) cs)"
  by pat_completeness auto
termination
  by (relation "measure (\<lambda>(sep, acc, s). length s)") auto

definition split :: "string \<Rightarrow> string \<Rightarrow> string list" where
  "split s sep = split_acc sep [] s"

fun join :: "string \<Rightarrow> string list \<Rightarrow> string" where
  "join sep [] = []"
| "join sep [x] = x"
| "join sep (x # y # ys) = x @ sep @ join sep (y # ys)"

text \<open>\<^verbatim>\<open>parseInt(s, 10)\<close>: leading white space is skipped, a sign is read, then the
  longest run of decimal digits; with no digit the result is \<^verbatim>\<open>NaN\<close>.\<close>

definition digit_of :: "char \<Rightarrow> int option" where
  "digit_of c = map_of (zip ''0123456789'' [0, 1, 2, 3, 4, 5, 6, 7, 8, 9]) c"

definition is_white_space :: "char \<Rightarrow> bool" where
  "is_white_space c =
     (c = CHR '' '' \<or> c = CHR 0x09 \<or> c = CHR 0x0A \<or> c = CHR 0x0B \<or> c = CHR 0x0C \<or> c = CHR 0x0D)"

fun digits_value :: "int \<Rightarrow> string \<Rightarrow> int" where
  "digits_value a [] = a"
| "digits_value a (c # cs) = digits_value (10 * a + the (digit_of c)) cs"

definition parseInt :: "string \<Rightarrow> number" where
  "parseInt s =
     (let t = dropWhile is_white_space s;
          negative = (t \<noteq> [] \<and> hd t = CHR ''-'');
          u = (if t \<noteq> [] \<and> (hd t = CHR ''-'' \<or> hd t = CHR ''+'') then tl t else t);
          ds = takeWhile (\<lambda>c. digit_of c \<noteq> None) u
      in if ds = [] then NaN
         else Num ((if negative then - 1 else 1) * digits_value 0 ds))"

subsection \<open>The host and the backend\<close>

text \<open>
  What the host reports and answers: the open documents, the visible and the active
  editor, the store of documents and editors, and the answers of
  \<^verbatim>\<open>workspace.openTextDocument\<close> and \<^verbatim>\<open>window.showTextDocument\<close> (\<open>None\<close> when the
  promise is rejected).
\<close>

record vscode =
  textDocuments :: "doc_ref list"
  visibleTextEditors :: "editor_ref list"
  activeTextEditor :: "editor_ref option"
  document_store :: "doc_ref \<Rightarrow> TextDocument"
  editor_store :: "editor_ref \<Rightarrow> TextEditor"
  openTextDocument_reply :: "uri_request \<Rightarrow> doc_ref option"
  showTextDocument_reply :: "doc_ref \<Rightarrow> editor_ref option"

text \<open>
  What the backend answers. \<^verbatim>\<open>createBuffer\<close> and \<^verbatim>\<open>openWindow\<close> answer a handle or
  a number (an error code); in a layout sync the answer to the call of the \<open>i\<close>-th
  iteration is the \<open>i\<close>-th reply. \<open>nvim_buffers\<close> are the buffers with their lines,
  \<open>nvim_windows\<close> the windows with the buffer each shows.
\<close>

datatype reply = error_code int | handle int

record nvim =
  createBuffer_reply :: "nat \<Rightarrow> reply"
  openWindow_reply :: "nat \<Rightarrow> reply"
  nvim_buffers :: "(int \<times> string list) list"
  nvim_windows :: "(int \<times> int) list"

definition BUFFER_NAME_PREFIX :: string where
  "BUFFER_NAME_PREFIX = ''__vscode_neovim__-''"

definition BUFFER_SCHEME :: string where
  "BUFFER_SCHEME = ''vscode-neovim''"

definition emit :: "bm_effect \<Rightarrow> BufferManager \<Rightarrow> BufferManager" where
  "emit e bm = bm\<lparr>trace := trace bm @ [e]\<rparr>"

subsection \<open>External documents and the initialisation of a buffer\<close>

definition isExternalTextDocument :: "vscode \<Rightarrow> BufferManager \<Rightarrow> doc_ref \<Rightarrow> bool" where
  "isExternalTextDocument h bm textDoc =
     (if scheme (uri (document_store h textDoc)) = ''output'' then False
      else textDoc \<in> externalTextDocuments bm)"

definition tabOptions :: "int \<Rightarrow> bool \<Rightarrow> int \<Rightarrow> request list" where
  "tabOptions bufId insertSpaces' tabSize' =
     [(''nvim_buf_set_option'', [AInt bufId, AStr ''expandtab'', ABool insertSpaces']),
      (''nvim_buf_set_option'', [AInt bufId, AStr ''tabstop'', AInt tabSize']),
      (''nvim_buf_set_option'', [AInt bufId, AStr ''shiftwidth'', AInt tabSize'])]"

text \<open>The first batch of \<^verbatim>\<open>initBufferForDocument\<close>.\<close>

definition init_requests :: "vscode \<Rightarrow> BufferManager \<Rightarrow> doc_ref \<Rightarrow> int \<Rightarrow> editor_ref option \<Rightarrow> request list" where
  "init_requests h bm doc bufId editor =
     (let insertSpaces' = (case editor of None \<Rightarrow> True | Some e \<Rightarrow> insertSpaces (options (editor_store h e)));
          tabSize' = (case editor of None \<Rightarrow> 4 | Some e \<Rightarrow> tabSize (options (editor_store h e)));
          eol' = (if eol (document_store h doc) = LF then [CHR 0x0A] else [CHR 0x0D, CHR 0x0A]);
          lines = split (getText (document_store h doc)) eol';
          number' = (case editor of None \<Rightarrow> True | Some e \<Rightarrow> lineNumbers (options (editor_store h e)) \<noteq> Off);
          relativeNumber = (case editor of None \<Rightarrow> False | Some e \<Rightarrow> lineNumbers (options (editor_store h e)) = Relative)
      in [(''nvim_buf_set_lines'', [AInt bufId, AInt 0, AInt (- 1), ABool False, AStrs lines]),
          (''nvim_buf_set_var'', [AInt bufId, AStr ''vscode_controlled'', ABool True]),
          (''nvim_buf_set_var'', [AInt bufId, AStr ''vscode_number'', ABool number']),
          (''nvim_buf_set_var'', [AInt bufId, AStr ''vscode_relativenumber'', ABool relativeNumber]),
          (''nvim_buf_set_name'', [AInt bufId, AStr (BUFFER_NAME_PREFIX @ uri_toString (uri (document_store h doc)))]),
          (''nvim_buf_set_option'', [AInt bufId, AStr ''modifiable'', ABool (\<not> isExternalTextDocument h bm doc)]),
          (''nvim_buf_set_option'', [AInt bufId, AStr ''buftype'', AStr ''nofile'']),
          (''nvim_buf_set_option'', [AInt bufId, AStr ''buflisted'', ABool True])]
         @ tabOptions bufId insertSpaces' tabSize')"

definition initBufferForDocument :: "vscode \<Rightarrow> doc_ref \<Rightarrow> int \<Rightarrow> editor_ref option \<Rightarrow> BufferManager \<Rightarrow> BufferManager" where
  "initBufferForDocument h doc bufId editor bm =
     (let insertSpaces' = (case editor of None \<Rightarrow> True | Some e \<Rightarrow> insertSpaces (options (editor_store h e)));
          tabSize' = (case editor of None \<Rightarrow> 4 | Some e \<Rightarrow> tabSize (options (editor_store h e)));
          bm1 = emit (logger debug ''Init buffer for ${bufId}, doc: ${document.uri.toString()}'') bm;
          bm2 = (case editor of
                   None \<Rightarrow> bm1
                 | Some e \<Rightarrow> bm1\<lparr>editorTabConfiguration :=
                                   map_set e \<lparr>tc_tabSize = tabSize', tc_insertSpaces = insertSpaces'\<rparr>
                                     (editorTabConfiguration bm1)\<rparr>);
          bm3 = emit (callAtomic (init_requests h bm2 doc bufId editor)) bm2;
          bm4 = emit (callAtomic (tabOptions bufId insertSpaces' tabSize')) bm3;
          bm5 = (if \<not> isExternalTextDocument h bm4 doc
                 then emit (nvim_call ''callFunction'' [AStr ''VSCodeClearUndo'', AInt bufId]) bm4
                 else bm4);
          bm6 = emit (onBufferInit (Num bufId) doc) bm5
      in emit (buffer_listen (Num bufId)) bm6)"

text \<open>The value of the option \<^verbatim>\<open>modifiable\<close> that a batch of requests sets for a buffer.\<close>

definition modifiable_set :: "request list \<Rightarrow> int \<Rightarrow> bool list" where
  "modifiable_set reqs bufId =
     concat (map (\<lambda>(m, args).
        (case args of
           [AInt b, AStr opt, ABool v] \<Rightarrow>
             if m = ''nvim_buf_set_option'' \<and> b = bufId \<and> opt = ''modifiable'' then [v] else []
         | _ \<Rightarrow> [])) reqs)"


definition modifiable_sent :: "bm_effect list \<Rightarrow> int \<Rightarrow> bool list" where
  "modifiable_sent effects bufId =
     concat (map (\<lambda>e. case e of callAtomic reqs \<Rightarrow> modifiable_set reqs bufId | _ \<Rightarrow> []) effects)"

text \<open>What a step has added to the trace.\<close>

definition sent_since :: "BufferManager \<Rightarrow> BufferManager \<Rightarrow> bm_effect list" where
  "sent_since bm bm' = drop (length (trace bm)) (trace bm')"

lemma trace_emit: "trace (emit e bm) = trace bm @ [e]"
  by (simp add: emit_def)

lemma externalTextDocuments_emit: "externalTextDocuments (emit e bm) = externalTextDocuments bm"
  by (simp add: emit_def)

lemma modifiable_set_tabOptions: "modifiable_set (tabOptions bufId i t) bufId = []"
  by (simp add: modifiable_set_def tabOptions_def)

lemma modifiable_set_init_requests:
  "modifiable_set (init_requests h bm doc bufId editor) bufId = [\<not> isExternalTextDocument h bm doc]"
  by (simp add: modifiable_set_def init_requests_def tabOptions_def Let_def)

lemma sent_since_initBufferForDocument:
  "sent_since bm (initBufferForDocument h doc bufId editor bm) =
     (let insertSpaces' = (case editor of None \<Rightarrow> True | Some e \<Rightarrow> insertSpaces (options (editor_store h e)));
          tabSize' = (case editor of None \<Rightarrow> 4 | Some e \<Rightarrow> tabSize (options (editor_store h e)));
          bm2 = (case editor of
                   None \<Rightarrow> bm
                 | Some e \<Rightarrow> bm\<lparr>editorTabConfiguration :=
                                  map_set e \<lparr>tc_tabSize = tabSize', tc_insertSpaces = insertSpaces'\<rparr>
                                    (editorTabConfiguration bm)\<rparr>)
      in [logger debug ''Init buffer for ${bufId}, doc: ${document.uri.toString()}'',
          callAtomic (init_requests h bm2 doc bufId editor),
          callAtomic (tabOptions bufId insertSpaces' tabSize')]
         @ (if \<not> isExternalTextDocument h bm doc
            then [nvim_call ''callFunction'' [AStr ''VSCodeClearUndo'', AInt bufId]] else [])
         @ [onBufferInit (Num bufId) doc, buffer_listen (Num bufId)])"
  by (cases editor)
     (simp_all add: sent_since_def initBufferForDocument_def emit_def Let_def isExternalTextDocument_def
        init_requests_def)

text \<open>
  Claim C10. \<^verbatim>\<open>isExternalTextDocument\<close> is false for every document whose URI scheme is
  \<^verbatim>\<open>output\<close>, also when the document is in the set of external documents, and the
  initialisation of a buffer for such a document sets \<^verbatim>\<open>modifiable\<close> to true; for any
  other document it is true exactly when the document is in the set of external
  documents, and the initialisation then sets \<^verbatim>\<open>modifiable\<close> to false. The
  initialisation sets the option once, to the negation of \<^verbatim>\<open>isExternalTextDocument\<close>.
\<close>

theorem isExternalTextDocument_output:
  "isExternalTextDocument h bm doc =
     (scheme (uri (document_store h doc)) \<noteq> ''output'' \<and> doc \<in> externalTextDocuments bm) \<and>
   modifiable_sent (sent_since bm (initBufferForDocument h doc bufId editor bm)) bufId =
     [scheme (uri (document_store h doc)) = ''output'' \<or> doc \<notin> externalTextDocuments bm]"
proof -
  have ext: "isExternalTextDocument h bm' doc =
      (scheme (uri (document_store h doc)) \<noteq> ''output'' \<and> doc \<in> externalTextDocuments bm')" for bm'
    by (simp add: isExternalTextDocument_def)
  have "modifiable_sent (sent_since bm (initBufferForDocument h doc bufId editor bm)) bufId =
        [\<not> isExternalTextDocument h bm doc]"
    unfolding sent_since_initBufferForDocument modifiable_sent_def Let_def
    by (cases editor)
       (simp_all add: modifiable_set_tabOptions modifiable_set_init_requests ext)
  then show ?thesis
    by (simp add: ext)
qed


text \<open>A host with two open documents: document \<open>0\<close> is an output channel, document
  \<open>1\<close> a document with a synthetic URI. Used to evaluate at concrete inputs.\<close>

definition example_document :: "doc_ref \<Rightarrow> TextDocument" where
  "example_document d =
     \<lparr>uri = \<lparr>scheme = (if d = 0 then ''output'' else ''vscode-neovim''), authority = ''5'',
              uri_toString = (if d = 0 then ''output:tasks'' else ''vscode-neovim://5/help.txt'')\<rparr>,
      isClosed = False, eol = LF, getText = ''a''\<rparr>"

definition example_editor :: "editor_ref \<Rightarrow> TextEditor" where
  "example_editor e =
     \<lparr>document = e, viewColumn = Some 1,
      options = \<lparr>insertSpaces = True, tabSize = 4, lineNumbers = On\<rparr>,
      selection_active = \<lparr>pos_line = 0, pos_character = 0\<rparr>, visibleRanges = []\<rparr>"

definition example_host :: vscode where
  "example_host =
     \<lparr>textDocuments = [0, 1], visibleTextEditors = [], activeTextEditor = None,
      document_store = example_document, editor_store = example_editor,
      openTextDocument_reply = (\<lambda>u. None), showTextDocument_reply = (\<lambda>d. None)\<rparr>"

theorem isExternalTextDocument_output_witness:
  "\<not> isExternalTextDocument example_host (new_BufferManager\<lparr>externalTextDocuments := {0, 1}\<rparr>) 0 \<and>
   modifiable_sent (sent_since (new_BufferManager\<lparr>externalTextDocuments := {0, 1}\<rparr>)
       (initBufferForDocument example_host 0 7 None (new_BufferManager\<lparr>externalTextDocuments := {0, 1}\<rparr>))) 7 = [True] \<and>
   isExternalTextDocument example_host (new_BufferManager\<lparr>externalTextDocuments := {0, 1}\<rparr>) 1 \<and>
   modifiable_sent (sent_since (new_BufferManager\<lparr>externalTextDocuments := {0, 1}\<rparr>)
       (initBufferForDocument example_host 1 8 None (new_BufferManager\<lparr>externalTextDocuments := {0, 1}\<rparr>))) 8 = [False]"
  using isExternalTextDocument_output [of example_host "new_BufferManager\<lparr>externalTextDocuments := {0, 1}\<rparr>" 0 7 None]
    isExternalTextDocument_output [of example_host "new_BufferManager\<lparr>externalTextDocuments := {0, 1}\<rparr>" 1 8 None]
  by (simp add: example_host_def example_document_def)

subsection \<open>The content provider\<close>

text \<open>
  \<^verbatim>\<open>BufferProvider.provideTextDocumentContent(uri, token)\<close>; the last parameter is
  \<^verbatim>\<open>token.isCancellationRequested\<close> when the list of buffers has arrived. The result
  \<open>None\<close> is \<^verbatim>\<open>undefined\<close>.
\<close>

definition provideTextDocumentContent :: "nvim \<Rightarrow> Uri \<Rightarrow> bool \<Rightarrow> bm_effect list \<times> string option" where
  "provideTextDocumentContent nv u isCancellationRequested =
     (let n = parseInt (authority u);
          buf = find (\<lambda>b. strict_eq (Num (fst b)) n) (nvim_buffers nv)
      in if buf = None \<or> isCancellationRequested
         then ([logger debug ''trying to provide content for ${uri}'',
                logger debug ''external buffer ${id} not found''], None)
         else (let lines = snd (the buf)
               in if length lines = 0 \<or> (length lines = 1 \<and> hd lines = [])
                  then ([logger debug ''trying to provide content for ${uri}'',
                         logger debug ''Skipping empty external buffer ${id}''], None)
                  else ([logger debug ''trying to provide content for ${uri}'',
                         buffer_listen (Num (fst (the buf))), buffer_attach (Num (fst (the buf)))],
                        Some (join [CHR 0x0A] lines))))"

text \<open>
  Claim C9. Given a synthetic buffer URI, the content provider returns the lines of the
  backend buffer joined by newline characters; it returns no content exactly when no
  backend buffer has the id that the authority of the URI names, when the request was
  cancelled, or when the buffer is empty (no line, or a single empty line).
\<close>

theorem provideTextDocumentContent_result:
  "snd (provideTextDocumentContent nv u isCancelled) =
     (case find (\<lambda>b. strict_eq (Num (fst b)) (parseInt (authority u))) (nvim_buffers nv) of
        None \<Rightarrow> None
      | Some b \<Rightarrow> if isCancelled \<or> snd b = [] \<or> snd b = [[]] then None
                  else Some (join [CHR 0x0A] (snd b))) \<and>
   (snd (provideTextDocumentContent nv u isCancelled) = None \<longleftrightarrow>
      (\<forall>b \<in> set (nvim_buffers nv). Num (fst b) \<noteq> parseInt (authority u)) \<or> isCancelled \<or>
      (\<exists>b. find (\<lambda>b. strict_eq (Num (fst b)) (parseInt (authority u))) (nvim_buffers nv) = Some b \<and>
           (snd b = [] \<or> snd b = [[]])))"
proof -
  let ?P = "\<lambda>b :: int \<times> string list. strict_eq (Num (fst b)) (parseInt (authority u))"
  have eq: "?P b = (Num (fst b) = parseInt (authority u))" for b
    by (cases "parseInt (authority u)") simp_all
  have single: "(length ls = Suc 0 \<and> hd ls = []) = (ls = [[]])" for ls :: "string list"
    by (cases ls) auto
  have first: "snd (provideTextDocumentContent nv u isCancelled) =
     (case find ?P (nvim_buffers nv) of
        None \<Rightarrow> None
      | Some b \<Rightarrow> if isCancelled \<or> snd b = [] \<or> snd b = [[]] then None
                  else Some (join [CHR 0x0A] (snd b)))"
    by (auto simp: provideTextDocumentContent_def Let_def single split: option.splits)
  have none: "(find ?P (nvim_buffers nv) = None) = (\<forall>b \<in> set (nvim_buffers nv). Num (fst b) \<noteq> parseInt (authority u))"
    by (auto simp: find_None_iff eq)
  show ?thesis
    unfolding first using none by (auto split: option.splits)
qed

theorem provideTextDocumentContent_result_witness:
  "(let nv = \<lparr>createBuffer_reply = (\<lambda>i. error_code 0), openWindow_reply = (\<lambda>i. error_code 0),
               nvim_buffers = [(1, []), (5, [''help'', [], ''usage'']), (6, [[]])], nvim_windows = []\<rparr>
    in snd (provideTextDocumentContent nv \<lparr>scheme = ''vscode-neovim'', authority = ''5'', uri_toString = ''x''\<rparr> False) =
         Some [CHR ''h'', CHR ''e'', CHR ''l'', CHR ''p'', CHR 0x0A, CHR 0x0A, CHR ''u'', CHR ''s'', CHR ''a'', CHR ''g'', CHR ''e''] \<and>
       snd (provideTextDocumentContent nv \<lparr>scheme = ''vscode-neovim'', authority = ''5'', uri_toString = ''x''\<rparr> True) = None \<and>
       snd (provideTextDocumentContent nv \<lparr>scheme = ''vscode-neovim'', authority = ''6'', uri_toString = ''x''\<rparr> False) = None \<and>
       snd (provideTextDocumentContent nv \<lparr>scheme = ''vscode-neovim'', authority = ''9'', uri_toString = ''x''\<rparr> False) = None)"
proof -
  have p: "parseInt ''5'' = Num 5" "parseInt ''6'' = Num 6" "parseInt ''9'' = Num 9"
    by (simp_all add: parseInt_def is_white_space_def digit_of_def)
  show ?thesis
    using provideTextDocumentContent_result
            [of "\<lparr>createBuffer_reply = (\<lambda>i. error_code 0), openWindow_reply = (\<lambda>i. error_code 0),
               nvim_buffers = [(1, []), (5, [''help'', [], ''usage'']), (6, [[]])], nvim_windows = []\<rparr>"
              "\<lparr>scheme = ''vscode-neovim'', authority = ''5'', uri_toString = ''x''\<rparr>" False]
    by (simp add: Let_def p provideTextDocumentContent_def)
qed


subsection \<open>Completion promises\<close>

text \<open>
  Modelled from the spec: \<^verbatim>\<open>ManualPromise\<close> (of \<^verbatim>\<open>utils\<close>, not among the sources) is the
  "single-assignment completion signal (settable once, awaitable many times)" of the
  design notes: \<^verbatim>\<open>new ManualPromise()\<close> makes a fresh pending promise and
  \<^verbatim>\<open>resolve()\<close> completes it. \<open>resolve_promise\<close> is \<^verbatim>\<open>p?.resolve()\<close>: each call on a
  promise is recorded, so that a second resolution would be seen.
\<close>

definition resolve_promise :: "promise option \<Rightarrow> BufferManager \<Rightarrow> BufferManager" where
  "resolve_promise p bm = (case p of None \<Rightarrow> bm | Some q \<Rightarrow> bm\<lparr>resolved := resolved bm @ [q]\<rparr>)"

text \<open>How an asynchronous function ends: it returns, or its promise is rejected by a
  rejected call that it awaits outside a \<^verbatim>\<open>try\<close>.\<close>

datatype outcome = returned | rejected

subsection \<open>Active editor sync\<close>

text \<open>\<^verbatim>\<open>waitForLayoutSync\<close> up to its \<^verbatim>\<open>await\<close>: the result is the promise it waits for.\<close>

definition waitForLayoutSync :: "BufferManager \<Rightarrow> promise option \<times> BufferManager" where
  "waitForLayoutSync bm =
     (case syncLayoutPromise bm of
        None \<Rightarrow> (None, bm)
      | Some p \<Rightarrow> (Some p, emit (logger debug ''Waiting for completing layout resyncing'') bm))"

text \<open>\<^verbatim>\<open>syncActiveEditor\<close> up to the \<^verbatim>\<open>await\<close> of its second line.\<close>

definition syncActiveEditor_call :: "BufferManager \<Rightarrow> promise option \<times> BufferManager" where
  "syncActiveEditor_call bm = waitForLayoutSync (emit (logger debug ''syncing active editor'') bm)"

text \<open>\<^verbatim>\<open>finish\<close> of \<^verbatim>\<open>syncActiveEditor\<close>.\<close>

definition finish :: "BufferManager \<Rightarrow> BufferManager" where
  "finish bm = (resolve_promise (syncActiveEditorPromise bm) bm)\<lparr>syncActiveEditorPromise := None\<rparr>"

text \<open>
  \<^verbatim>\<open>syncActiveEditor\<close> from the point where \<^verbatim>\<open>await this.waitForLayoutSync()\<close> is over.
  \<open>awaited\<close> is the promise that the wait was for and \<open>bm\<close> the manager when the
  function resumes; while that promise is pending the function does not resume, which is
  the result \<open>None\<close>. \<open>cursor_ok\<close> tells whether the awaited cursor update is
  fulfilled, \<open>set_win_ok\<close> whether the request \<^verbatim>\<open>nvim_set_current_win\<close> is.
\<close>

definition syncActiveEditor ::
  "vscode \<Rightarrow> bool \<Rightarrow> bool \<Rightarrow> promise option \<Rightarrow> BufferManager \<Rightarrow> (outcome \<times> BufferManager) option" where
  "syncActiveEditor h cursor_ok set_win_ok awaited bm0 =
     (if awaited \<noteq> None \<and> the awaited \<notin> set (resolved bm0) then None
      else Some
       (let bm = (if awaited \<noteq> None then emit (logger debug ''Waiting done'') bm0 else bm0)
        in case activeTextEditor h of
             None \<Rightarrow> (returned, finish bm)
           | Some activeEditor \<Rightarrow>
               (let winId = map_get (textEditorToWinId bm) activeEditor
                in if falsy winId then
                     (returned,
                      finish (emit (logger error
                        ''Unable to determine neovim windows id for editor viewColumn: ${activeEditor.viewColumn}, docUri: ${activeEditor.document.uri.toString()}'') bm))
                   else
                     (let bm1 = emit (logger debug ''Setting active editor - viewColumn: ${activeEditor.viewColumn}, winId: ${winId}'') bm;
                          bm2 = emit (updateNeovimCursorPosition activeEditor (selection_active (editor_store h activeEditor))) bm1
                      in if \<not> cursor_ok then (rejected, bm2)
                         else (let bm3 = emit (nvim_call ''request'' [AStr ''nvim_set_current_win'', AInt (the winId)]) bm2;
                                   bm4 = (if set_win_ok then bm3 else emit (logger error ''${(e as Error).message}'') bm3)
                               in (returned, finish bm4))))))"

text \<open>\<^verbatim>\<open>onDidChangeActiveTextEditor\<close>; the debounced call is the entry of the trace.\<close>

definition onDidChangeActiveTextEditor :: "BufferManager \<Rightarrow> BufferManager" where
  "onDidChangeActiveTextEditor bm0 =
     (let bm = emit (logger debug ''onDidChangeActiveTextEditor'') bm0;
          bm1 = (if syncActiveEditorPromise bm = None
                 then bm\<lparr>syncActiveEditorPromise := Some (next_promise bm), next_promise := Suc (next_promise bm)\<rparr>
                 else bm)
      in emit (debounced ''syncActiveEditor'' 100 []) bm1)"

subsection \<open>External buffers\<close>

definition isVscodeUriName :: "string \<Rightarrow> bool" where
  "isVscodeUriName nm =
     (if str_includes ''://'' nm then True
      else if prefix ''output:'' nm \<or> prefix (BUFFER_NAME_PREFIX @ ''output:'') nm then True
      else if prefix ''/search-editor:'' nm \<or> prefix (BUFFER_NAME_PREFIX @ ''/search-editor:'') nm then True
      else False)"

definition findDocFromUri :: "vscode \<Rightarrow> string \<Rightarrow> doc_ref option" where
  "findDocFromUri h u =
     (let u' = (if prefix ''/search-editor'' u then drop 1 u else u)
      in find (\<lambda>d. uri_toString (uri (document_store h d)) = u') (textDocuments h))"

definition buildExternalBufferUri :: "string \<Rightarrow> number \<Rightarrow> uri_request" where
  "buildExternalBufferUri nm n = Uri_file_with nm BUFFER_SCHEME n"

definition resyncBufferTabOptions :: "vscode \<Rightarrow> editor_ref \<Rightarrow> number \<Rightarrow> BufferManager \<Rightarrow> BufferManager" where
  "resyncBufferTabOptions h editor bufId bm =
     emit (callAtomic
       [(''nvim_buf_set_option'', [ANum bufId, AStr ''expandtab'', ABool (insertSpaces (options (editor_store h editor)))]),
        (''nvim_buf_set_option'', [ANum bufId, AStr ''tabstop'', AInt (tabSize (options (editor_store h editor)))]),
        (''nvim_buf_set_option'', [ANum bufId, AStr ''shiftwidth'', AInt (tabSize (options (editor_store h editor)))])]) bm"

text \<open>The loop of \<^verbatim>\<open>attachNeovimExternalBuffer\<close> over the windows of the backend: the
  window to close is the last one that shows the buffer and is not a window of an
  editor.\<close>

definition find_closeWinId :: "nvim \<Rightarrow> number \<Rightarrow> BufferManager \<Rightarrow> int \<times> BufferManager" where
  "find_closeWinId nv n bm =
     fold (\<lambda>(win, buf) (closeWinId, bm').
             if strict_eq (Num buf) n
             then (if \<not> map_has (winIdToEditor bm') win then win else closeWinId,
                   emit (logger debug ''Found window assigned to external buffer ${id}, winId: ${window.id}, isKnownWindow: ${this.winIdToEditor.has(window.id)}'') bm')
             else (closeWinId, bm'))
       (nvim_windows nv) (0, bm)"

definition attachNeovimExternalBuffer ::
  "vscode \<Rightarrow> nvim \<Rightarrow> string \<Rightarrow> number \<Rightarrow> bool \<Rightarrow> int \<Rightarrow> BufferManager \<Rightarrow> outcome \<times> BufferManager" where
  "attachNeovimExternalBuffer h nv nm n expandTab tabStop bm0 =
     (let u = buildExternalBufferUri nm n;
          bm = emit (openTextDocument u) (emit (logger debug ''opening external buffer ${uri}'') bm0)
      in case openTextDocument_reply h u of
           None \<Rightarrow> (returned, emit (logger debug ''unable to open external buffer: ${error}'') bm)
         | Some doc \<Rightarrow>
             (let bm1 = bm\<lparr>externalTextDocuments := insert doc (externalTextDocuments bm),
                           textDocumentToBufferId := map_set doc n (textDocumentToBufferId bm)\<rparr>;
                  bm2 = emit (nvim_call ''windows'' []) (emit (onBufferInit n doc) bm1);
                  (closeWinId, bm3) = find_closeWinId nv n bm2;
                  bm4 = emit (showTextDocument doc) bm3
              in case showTextDocument_reply h doc of
                   None \<Rightarrow> (rejected, bm4)
                 | Some editor \<Rightarrow>
                     (let bm5 = bm4\<lparr>editorTabConfiguration :=
                                     map_set editor \<lparr>tc_tabSize = tabStop, tc_insertSpaces = expandTab\<rparr>
                                       (editorTabConfiguration bm4)\<rparr>;
                          bm6 = emit (set_editor_options editor expandTab tabStop) bm5
                      in if closeWinId \<noteq> 0
                         then (returned,
                               emit (setTimeout (close_window closeWinId n) 5000)
                                 (emit (setTimeout (adjust_cursor closeWinId n doc editor) 1000) bm6))
                         else (returned, bm6))))"

text \<open>The \<^verbatim>\<open>else if (name)\<close> branch of the case \<^verbatim>\<open>"external-buffer"\<close>: the buffer of a
  document of the host. Its body is a \<^verbatim>\<open>try\<close> with an empty \<^verbatim>\<open>catch\<close>, so a rejected
  call ends it with what was done so far.\<close>

definition show_host_document :: "vscode \<Rightarrow> nvim \<Rightarrow> string \<Rightarrow> string \<Rightarrow> number \<Rightarrow> BufferManager \<Rightarrow> BufferManager" where
  "show_host_document h nv nm idStr n bm0 =
     (let normalizedName = (if prefix BUFFER_NAME_PREFIX nm then drop 18 nm else nm);
          bm = emit (logger debug ''Buffer request for ${normalizedName}, bufId: ${idStr}'') bm0;
          found = findDocFromUri h normalizedName;
          bm1 = (if found = None
                 then emit (openTextDocument (Uri_parse normalizedName)) (emit (logger debug ''Opening a doc: ${normalizedName}'') bm)
                 else bm);
          opened = (if found = None then openTextDocument_reply h (Uri_parse normalizedName) else found)
      in case opened of
           None \<Rightarrow> bm1
         | Some doc \<Rightarrow>
             (let buf = find (\<lambda>b. strict_eq (Num (fst b)) n) (nvim_buffers nv);
                  unmapped = \<not> map_has (textDocumentToBufferId bm1) doc;
                  forceTabOptions = (unmapped \<and> buf \<noteq> None);
                  bm2 = (if unmapped
                         then emit (nvim_call ''buffers'' [])
                                (emit (logger debug ''No doc -> buffer mapping exists, assigning mapping and init buffer options'') bm1)
                         else bm1);
                  bm3 = (if forceTabOptions then initBufferForDocument h doc (fst (the buf)) None bm2 else bm2);
                  bm4 = (if unmapped
                         then bm3\<lparr>textDocumentToBufferId := map_set doc n (textDocumentToBufferId bm3)\<rparr>
                         else bm3)
              in if (case activeTextEditor h of None \<Rightarrow> True | Some a \<Rightarrow> document (editor_store h a) \<noteq> doc)
                 then (let bm5 = emit (showTextDocument doc) bm4
                       in case showTextDocument_reply h doc of
                            None \<Rightarrow> bm5
                          | Some editor \<Rightarrow>
                              (let bm6 = bm5\<lparr>editorTabConfiguration :=
                                              map_set editor
                                                \<lparr>tc_tabSize = tabSize (options (editor_store h editor)),
                                                 tc_insertSpaces = insertSpaces (options (editor_store h editor))\<rparr>
                                                (editorTabConfiguration bm5)\<rparr>
                               in if forceTabOptions then resyncBufferTabOptions h editor n bm6 else bm6))
                 else bm4))"

text \<open>The case \<^verbatim>\<open>"external-buffer"\<close> of \<^verbatim>\<open>handleExtensionRequest\<close>, with the arguments
  \<^verbatim>\<open>[name, idStr, expandTab, tabStop]\<close>.\<close>

definition external_buffer ::
  "vscode \<Rightarrow> nvim \<Rightarrow> string \<Rightarrow> string \<Rightarrow> int \<Rightarrow> int \<Rightarrow> BufferManager \<Rightarrow> outcome \<times> BufferManager" where
  "external_buffer h nv nm idStr expandTab tabStop bm =
     (if prefix (BUFFER_NAME_PREFIX @ ''output:'') nm then (returned, bm)
      else (let n = parseInt idStr
            in if \<not> (nm \<noteq> [] \<and> isVscodeUriName nm) then
                 (let bm1 = emit (logger debug ''Attaching new external buffer: '${name}', id: ${id}'') bm
                  in if strict_eq n (Num 1)
                     then (returned, emit (logger debug ''${id} is the first neovim buffer, skipping'') bm1)
                     else attachNeovimExternalBuffer h nv nm n (expandTab \<noteq> 0) tabStop bm1)
               else if nm \<noteq> [] then (returned, show_host_document h nv nm idStr n bm)
               else (returned, bm)))"

datatype bm_request =
    external_buffer_args string string int int
  | window_changed_args int
  | other_request

text \<open>\<^verbatim>\<open>handleExtensionRequest\<close> of the buffer manager, for the requests
  \<^verbatim>\<open>"external-buffer"\<close> and \<^verbatim>\<open>"window-changed"\<close>.\<close>

definition BufferManager_handleExtensionRequest ::
  "vscode \<Rightarrow> nvim \<Rightarrow> string \<Rightarrow> bm_request \<Rightarrow> BufferManager \<Rightarrow> outcome \<times> BufferManager" where
  "BufferManager_handleExtensionRequest h nv nm args bm =
     (case args of
        external_buffer_args bufname idStr expandTab tabStop \<Rightarrow>
          if nm = ''external-buffer'' then external_buffer h nv bufname idStr expandTab tabStop bm
          else (returned, bm)
      | window_changed_args winId \<Rightarrow>
          if nm = ''window-changed''
          then (returned, emit (debounced ''onWindowChanged'' 100 [AInt winId]) bm)
          else (returned, bm)
      | other_request \<Rightarrow> (returned, bm))"


subsection \<open>Desynchronised active editor\<close>

lemma finish_fields:
  "syncActiveEditorPromise (finish bm) = None"
  "resolved (finish bm) = resolved bm @ (case syncActiveEditorPromise bm of None \<Rightarrow> [] | Some p \<Rightarrow> [p])"
  "trace (finish bm) = trace bm"
  "(finish bm)\<lparr>syncActiveEditorPromise := q, resolved := r\<rparr> = bm\<lparr>syncActiveEditorPromise := q, resolved := r\<rparr>"
  by (simp_all add: finish_def resolve_promise_def split: option.splits)

text \<open>
  Claim C3. When active-editor sync runs (its wait for the layout sync is over) and the
  active editor has no editor-to-window mapping, the operation logs the
  desynchronisation error, does not throw, and resolves and clears the pending
  active-editor-sync promise, so that a waiter on that promise is released. Nothing else
  of the manager changes. A mapping to the window id \<open>0\<close> counts as no mapping.
\<close>

theorem syncActiveEditor_desynchronized:
  assumes "activeTextEditor h = Some e"
    and "falsy (map_get (textEditorToWinId bm) e)"
    and "awaited = None \<or> the awaited \<in> set (resolved bm)"
  shows "\<exists>bm'. syncActiveEditor h cursor_ok set_win_ok awaited bm = Some (returned, bm') \<and>
           last (trace bm') = logger error
             ''Unable to determine neovim windows id for editor viewColumn: ${activeEditor.viewColumn}, docUri: ${activeEditor.document.uri.toString()}'' \<and>
           syncActiveEditorPromise bm' = None \<and>
           resolved bm' = resolved bm @ (case syncActiveEditorPromise bm of None \<Rightarrow> [] | Some p \<Rightarrow> [p]) \<and>
           (\<forall>p. syncActiveEditorPromise bm = Some p \<longrightarrow> p \<in> set (resolved bm')) \<and>
           bm'\<lparr>syncActiveEditorPromise := syncActiveEditorPromise bm, resolved := resolved bm, trace := trace bm\<rparr> = bm"
proof (cases awaited)
  case None
  then show ?thesis
    using assms(1,2)
    by (auto simp: syncActiveEditor_def Let_def finish_fields emit_def)
next
  case (Some p)
  then show ?thesis
    using assms
    by (auto simp: syncActiveEditor_def Let_def finish_fields emit_def)
qed

theorem syncActiveEditor_desynchronized_witness:
  "syncActiveEditor (example_host\<lparr>activeTextEditor := Some 3\<rparr>) True True None
     (new_BufferManager\<lparr>syncActiveEditorPromise := Some 0, next_promise := 1\<rparr>) =
   Some (returned,
     new_BufferManager\<lparr>syncActiveEditorPromise := None, next_promise := 1, resolved := [0],
       trace := [logger error
             ''Unable to determine neovim windows id for editor viewColumn: ${activeEditor.viewColumn}, docUri: ${activeEditor.document.uri.toString()}'']\<rparr>)"
proof -
  have a: "activeTextEditor (example_host\<lparr>activeTextEditor := Some 3\<rparr>) = Some 3" by simp
  have b: "falsy (map_get (textEditorToWinId (new_BufferManager\<lparr>syncActiveEditorPromise := Some 0, next_promise := 1\<rparr>)) 3)"
    by (simp add: new_BufferManager_def map_get_def)
  have c: "(None :: promise option) = None \<or>
           the None \<in> set (resolved (new_BufferManager\<lparr>syncActiveEditorPromise := Some 0, next_promise := 1\<rparr>))"
    by simp
  from syncActiveEditor_desynchronized [OF a b c, of True True]
  show ?thesis
    by (simp add: syncActiveEditor_def finish_def resolve_promise_def emit_def new_BufferManager_def map_get_def Let_def)
qed


subsection \<open>The first buffer of the backend\<close>

text \<open>A host with one open document, \<^verbatim>\<open>file:///a\<close>, shown by no editor, and a
  backend whose only buffer has the id \<open>1\<close>.\<close>

definition file_host :: vscode where
  "file_host =
     \<lparr>textDocuments = [0], visibleTextEditors = [], activeTextEditor = None,
      document_store = (\<lambda>d. \<lparr>uri = \<lparr>scheme = ''file'', authority = [], uri_toString = ''file:///a''\<rparr>,
                              isClosed = False, eol = LF, getText = ''a''\<rparr>),
      editor_store = example_editor,
      openTextDocument_reply = (\<lambda>u. None), showTextDocument_reply = (\<lambda>d. Some 0)\<rparr>"

definition first_buffer_nvim :: nvim where
  "first_buffer_nvim =
     \<lparr>createBuffer_reply = (\<lambda>i. error_code 0), openWindow_reply = (\<lambda>i. error_code 0),
      nvim_buffers = [(1, [''a''])], nvim_windows = [(1000, 1)]\<rparr>"

lemma parseInt_1: "parseInt ''1'' = Num 1"
  by (simp add: parseInt_def is_white_space_def digit_of_def)

lemma isVscodeUriName_file: "isVscodeUriName ''file:///a''"
  by (simp add: isVscodeUriName_def)

text \<open>
  Claim C4, as stated, fails: the check for the id \<open>1\<close> stands in the branch for names
  that are not URI names of the host. For the name \<^verbatim>\<open>file:///a\<close> the request for
  buffer \<open>1\<close> initialises the buffer, maps the document to it and shows the document.
\<close>

theorem external_buffer_first_buffer_counterexample:
  "map_get (textDocumentToBufferId (snd (BufferManager_handleExtensionRequest file_host first_buffer_nvim
       ''external-buffer'' (external_buffer_args ''file:///a'' ''1'' 1 4) new_BufferManager))) 0 = Some (Num 1) \<and>
   map_get (textDocumentToBufferId new_BufferManager) 0 = None \<and>
   showTextDocument 0 \<in> set (trace (snd (BufferManager_handleExtensionRequest file_host first_buffer_nvim
       ''external-buffer'' (external_buffer_args ''file:///a'' ''1'' 1 4) new_BufferManager)))"
proof -
  have doc: "findDocFromUri file_host ''file:///a'' = Some 0"
    by (simp add: findDocFromUri_def file_host_def)
  have act: "activeTextEditor file_host = None" "showTextDocument_reply file_host 0 = Some 0"
    by (simp_all add: file_host_def)
  have bufs: "nvim_buffers first_buffer_nvim = [(1, [''a''])]"
    by (simp add: first_buffer_nvim_def)
  have tr: "trace (initBufferForDocument h d b ed bm) = trace bm @ sent_since bm (initBufferForDocument h d b ed bm)"
    for h d b ed bm
    by (simp add: sent_since_def initBufferForDocument_def emit_def Let_def split: option.splits)
  have tdb: "textDocumentToBufferId (initBufferForDocument h d b None bm) = textDocumentToBufferId bm"
    for h d b bm
    by (simp add: initBufferForDocument_def emit_def Let_def)
  have new: "textDocumentToBufferId new_BufferManager = []"
    by (simp add: new_BufferManager_def)
  show ?thesis
    by (simp add: BufferManager_handleExtensionRequest_def external_buffer_def BUFFER_NAME_PREFIX_def
        parseInt_1 isVscodeUriName_file show_host_document_def doc act bufs Let_def
        map_has_def map_get_map_set resyncBufferTabOptions_def trace_emit tdb new
        emit_def [of _ "_\<lparr>textDocumentToBufferId := _\<rparr>"] emit_def [of _ "_\<lparr>editorTabConfiguration := _\<rparr>"])
       (simp add: map_get_def emit_def new_BufferManager_def)
qed

text \<open>
  Claim C4, amended. For every \<^verbatim>\<open>external-buffer\<close> request whose name is not a URI
  name of the host (the name is empty, or \<^verbatim>\<open>isVscodeUriName\<close> is false for it), a buffer
  with the id \<open>1\<close> is ignored: the request returns, the manager is as before but for
  its trace, and what it has added to the trace are debug log lines only, so there is no
  attach, no document is opened or shown and no mapping table changes.
\<close>

theorem external_buffer_first_buffer_ignored:
  assumes "parseInt idStr = Num 1"
    and "\<not> (nm \<noteq> [] \<and> isVscodeUriName nm)"
  shows "\<exists>bm'. BufferManager_handleExtensionRequest h nv ''external-buffer''
                  (external_buffer_args nm idStr expandTab tabStop) bm = (returned, bm') \<and>
               bm'\<lparr>trace := trace bm\<rparr> = bm \<and>
               list_all (\<lambda>e. \<exists>msg. e = logger debug msg) (sent_since bm bm')"
proof -
  have no_output: "\<not> prefix (BUFFER_NAME_PREFIX @ ''output:'') nm"
    using assms(2) by (auto simp: isVscodeUriName_def split: if_splits)
  show ?thesis
    using assms no_output
    by (auto simp: BufferManager_handleExtensionRequest_def external_buffer_def Let_def emit_def sent_since_def)
qed

theorem external_buffer_first_buffer_ignored_witness:
  "BufferManager_handleExtensionRequest file_host first_buffer_nvim ''external-buffer''
      (external_buffer_args ''/usr/share/nvim/doc/help.txt'' ''1'' 1 8) new_BufferManager =
   (returned, new_BufferManager\<lparr>trace :=
      [logger debug ''Attaching new external buffer: '${name}', id: ${id}'',
       logger debug ''${id} is the first neovim buffer, skipping'']\<rparr>)"
proof -
  have n: "\<not> (''/usr/share/nvim/doc/help.txt'' \<noteq> [] \<and> isVscodeUriName ''/usr/share/nvim/doc/help.txt'')"
    by (simp add: isVscodeUriName_def BUFFER_NAME_PREFIX_def)
  from external_buffer_first_buffer_ignored [OF parseInt_1 n, of file_host first_buffer_nvim 1 8 new_BufferManager]
  show ?thesis
    using n
    by (auto simp: BufferManager_handleExtensionRequest_def external_buffer_def Let_def emit_def parseInt_1
        new_BufferManager_def BUFFER_NAME_PREFIX_def)
qed


subsection \<open>Full layout sync\<close>

text \<open>
  \<^verbatim>\<open>createNeovimWindow(bufId)\<close>, for the configured \<^verbatim>\<open>neovimViewportWidth\<close> and the
  backend's answer to \<^verbatim>\<open>openWindow\<close>. The result is the id of the window, or \<open>None\<close>
  when the function throws (the answer is a number).
\<close>

definition createNeovimWindow :: "int \<Rightarrow> reply \<Rightarrow> number \<Rightarrow> BufferManager \<Rightarrow> int option \<times> BufferManager" where
  "createNeovimWindow neovimViewportWidth win bufId bm =
     (let bm1 = emit (nvim_call ''setOption'' [AStr ''eventignore'', AStr ''BufWinEnter,BufEnter,BufLeave'']) bm;
          bm2 = emit (nvim_call ''openWindow'' [ANum bufId, ABool False, ABool True, AInt neovimViewportWidth, AInt 100]) bm1;
          bm3 = emit (nvim_call ''setOption'' [AStr ''eventignore'', AStr []]) bm2
      in case win of
           error_code c \<Rightarrow> (None, bm3)
         | handle winId \<Rightarrow> (Some winId, bm3))"

text \<open>
  The body of the first loop of \<^verbatim>\<open>syncLayout\<close>, for the \<open>i\<close>-th visible editor, in its
  two parts. The first creates and initialises the buffer of a document that has none; its
  result is \<open>False\<close> when the iteration ends there (\<^verbatim>\<open>continue\<close>).
\<close>

definition init_unknown_document :: "vscode \<Rightarrow> nvim \<Rightarrow> nat \<Rightarrow> editor_ref \<Rightarrow> BufferManager \<Rightarrow> bool \<times> BufferManager" where
  "init_unknown_document h nv i visibleEditor bm =
     (let doc = document (editor_store h visibleEditor)
      in if \<not> map_has (textDocumentToBufferId bm) doc
         then (let bm1 = emit (nvim_call ''createBuffer'' [ABool False, ABool True])
                           (emit (logger debug ''Document not known, init in neovim'') bm)
               in case createBuffer_reply nv i of
                    error_code c \<Rightarrow> (False, emit (logger error ''Cannot create a buffer, code: ${buf}'') bm1)
                  | handle bufId \<Rightarrow>
                      (let bm2 = initBufferForDocument h doc bufId (Some visibleEditor) bm1;
                           bm3 = emit (logger debug ''Document: ${visibleEditor.document.uri.toString()}, BufId: ${buf.id}'') bm2
                       in (True, bm3\<lparr>textDocumentToBufferId := map_set doc (Num bufId) (textDocumentToBufferId bm3)\<rparr>)))
         else (True, bm))"

text \<open>The second part opens a window for an editor that has none; a window that cannot
  be created is logged in the \<^verbatim>\<open>catch\<close>.\<close>

definition open_editor_window :: "vscode \<Rightarrow> nvim \<Rightarrow> int \<Rightarrow> nat \<Rightarrow> editor_ref \<Rightarrow> BufferManager \<Rightarrow> BufferManager" where
  "open_editor_window h nv neovimViewportWidth i visibleEditor bm =
     (let editorBufferId = the (map_get (textDocumentToBufferId bm) (document (editor_store h visibleEditor)))
      in if \<not> map_has (textEditorToWinId bm) visibleEditor
         then (let bm1 = emit (logger debug ''Creating new neovim window for ${visibleEditor.viewColumn} column (undefined is OK here)'') bm;
                   created = createNeovimWindow neovimViewportWidth (openWindow_reply nv i) editorBufferId bm1;
                   bm2 = snd created
               in case fst created of
                    None \<Rightarrow> emit (logger error ''${(e as Error).message}'') bm2
                  | Some winId \<Rightarrow>
                      (let bm3 = emit (logger debug ''ViewColumn: ${visibleEditor.viewColumn} - WinId: ${winId}'')
                                   (emit (logger debug ''Created new window: ${winId}'') bm2);
                           bm4 = bm3\<lparr>textEditorToWinId := map_set visibleEditor winId (textEditorToWinId bm3),
                                      winIdToEditor := map_set winId visibleEditor (winIdToEditor bm3)\<rparr>
                       in emit (updateNeovimCursorPosition visibleEditor
                                  (selection_active (editor_store h visibleEditor))) bm4))
         else bm)"

definition sync_visible_editor :: "vscode \<Rightarrow> nvim \<Rightarrow> int \<Rightarrow> nat \<times> editor_ref \<Rightarrow> BufferManager \<Rightarrow> BufferManager" where
  "sync_visible_editor h nv neovimViewportWidth ie bm =
     (let known = init_unknown_document h nv (fst ie) (snd ie)
            (emit (logger debug ''Visible editor, viewColumn: ${visibleEditor.viewColumn}, doc: ${visibleEditor.document.uri.toString()}'') bm)
      in if fst known then open_editor_window h nv neovimViewportWidth (fst ie) (snd ie) (snd known)
         else snd known)"

definition syncLayout_open :: "vscode \<Rightarrow> nvim \<Rightarrow> int \<Rightarrow> editor_ref list \<Rightarrow> BufferManager \<Rightarrow> BufferManager" where
  "syncLayout_open h nv neovimViewportWidth currentVisibleEditors bm =
     fold (sync_visible_editor h nv neovimViewportWidth) (enumerate 0 currentVisibleEditors)
       (emit (logger debug ''new/changed editors/windows'') (emit (logger debug ''syncing layout'') bm))"

text \<open>The two \<^verbatim>\<open>forEach\<close> loops of the clean-up, each over a copy of the entries of its
  map, with their callbacks; the result carries \<^verbatim>\<open>unusedWindows\<close> and
  \<^verbatim>\<open>unusedBuffers\<close>.\<close>

fun close_if_unused :: "editor_ref list \<Rightarrow> editor_ref \<times> int \<Rightarrow> int list \<times> BufferManager \<Rightarrow> int list \<times> BufferManager" where
  "close_if_unused currentVisibleEditors (editor, winId) (unusedWindows, bm) =
     (if editor \<notin> set currentVisibleEditors
      then (unusedWindows @ [winId],
            (emit (logger debug ''Editor viewColumn: ${editor.viewColumn}, winId: ${winId}, closing'') bm)
              \<lparr>textEditorToWinId := map_delete editor (textEditorToWinId bm),
               winIdToEditor := map_delete winId (winIdToEditor bm)\<rparr>)
      else (unusedWindows, bm))"

definition close_unused_windows :: "editor_ref list \<Rightarrow> BufferManager \<Rightarrow> int list \<times> BufferManager" where
  "close_unused_windows currentVisibleEditors bm =
     fold (close_if_unused currentVisibleEditors) (textEditorToWinId bm) ([], bm)"

text \<open>\<^verbatim>\<open>!currentVisibleEditors.some((editor) => editor.document === document) && document.isClosed\<close>\<close>

definition unused_document :: "vscode \<Rightarrow> editor_ref list \<Rightarrow> doc_ref \<Rightarrow> bool" where
  "unused_document h currentVisibleEditors doc =
     (\<not> list_ex (\<lambda>editor. document (editor_store h editor) = doc) currentVisibleEditors
      \<and> isClosed (document_store h doc))"

fun delete_if_unused ::
  "vscode \<Rightarrow> editor_ref list \<Rightarrow> doc_ref \<times> number \<Rightarrow> number list \<times> BufferManager \<Rightarrow> number list \<times> BufferManager" where
  "delete_if_unused h currentVisibleEditors (doc, bufId) (unusedBuffers, bm) =
     (if unused_document h currentVisibleEditors doc
      then (unusedBuffers @ [bufId],
            (emit (logger debug ''Document: ${document.uri.toString()}, bufId: ${bufId}, deleting'') bm)
              \<lparr>textDocumentToBufferId := map_delete doc (textDocumentToBufferId bm)\<rparr>)
      else (unusedBuffers, bm))"

definition delete_unused_buffers :: "vscode \<Rightarrow> editor_ref list \<Rightarrow> BufferManager \<Rightarrow> number list \<times> BufferManager" where
  "delete_unused_buffers h currentVisibleEditors bm =
     fold (delete_if_unused h currentVisibleEditors) (textDocumentToBufferId bm) ([], bm)"

text \<open>The manager where \<^verbatim>\<open>syncLayout\<close> is about to make its bulk calls, with the two
  lists.\<close>

definition syncLayout_cleanup ::
  "vscode \<Rightarrow> nvim \<Rightarrow> int \<Rightarrow> BufferManager \<Rightarrow> int list \<times> number list \<times> BufferManager" where
  "syncLayout_cleanup h nv neovimViewportWidth bm =
     (let currentVisibleEditors = visibleTextEditors h;
          bm1 = syncLayout_open h nv neovimViewportWidth currentVisibleEditors bm;
          windows = close_unused_windows currentVisibleEditors
                      (emit (logger debug ''Clean up windows and buffers'') bm1);
          buffers = delete_unused_buffers h currentVisibleEditors (snd windows)
      in (fst windows, fst buffers, snd buffers))"

definition delete_buffers :: "number list \<Rightarrow> bm_effect" where
  "delete_buffers unusedBuffers =
     nvim_call ''executeLua'' [AStr ''require'vscode-neovim.api'.delete_buffers(...)'', ANums unusedBuffers]"

definition close_windows :: "int list \<Rightarrow> bm_effect" where
  "close_windows unusedWindows =
     nvim_call ''executeLua'' [AStr ''require'vscode-neovim.api'.close_windows(...)'', ANums (map Num unusedWindows)]"

definition bulk_calls :: "int list \<Rightarrow> number list \<Rightarrow> bm_effect list" where
  "bulk_calls unusedWindows unusedBuffers =
     (if unusedBuffers \<noteq> [] then [delete_buffers unusedBuffers] else []) @
     (if unusedWindows \<noteq> [] then [close_windows unusedWindows] else [])"

text \<open>The end of \<^verbatim>\<open>syncLayout\<close>: the check of the run's own token, and the resolution
  of the shared promise.\<close>

definition syncLayout_complete :: "token \<Rightarrow> BufferManager \<Rightarrow> BufferManager" where
  "syncLayout_complete cancelToken bm =
     (if cancelToken \<in> cancelled bm
      then emit (logger debug ''Cancellation requested in syncLayout, returning'') bm
      else (resolve_promise (syncLayoutPromise bm) bm)\<lparr>syncLayoutPromise := None\<rparr>)"

definition syncLayout :: "vscode \<Rightarrow> nvim \<Rightarrow> int \<Rightarrow> token \<Rightarrow> BufferManager \<Rightarrow> BufferManager" where
  "syncLayout h nv neovimViewportWidth cancelToken bm =
     (let cleanup = syncLayout_cleanup h nv neovimViewportWidth bm;
          unusedWindows = fst cleanup;
          unusedBuffers = fst (snd cleanup);
          bm1 = snd (snd cleanup);
          bm2 = bm1\<lparr>trace := trace bm1 @ bulk_calls unusedWindows unusedBuffers\<rparr>
      in syncLayout_complete cancelToken bm2)"

text \<open>\<^verbatim>\<open>onDidChangeVisibleTextEditors\<close>: the result is the token handed to the debounced
  \<^verbatim>\<open>syncLayout\<close>, and the manager.\<close>

definition onDidChangeVisibleTextEditors :: "BufferManager \<Rightarrow> token \<times> BufferManager" where
  "onDidChangeVisibleTextEditors bm0 =
     (let bm = emit (logger debug ''onDidChangeVisibleTextEditors'') bm0;
          bm1 = (if syncLayoutPromise bm = None
                 then bm\<lparr>syncLayoutPromise := Some (next_promise bm), next_promise := Suc (next_promise bm)\<rparr>
                 else bm);
          bm2 = bm1\<lparr>cancelled := insert (syncLayoutCancelTokenSource bm1) (cancelled bm1)\<rparr>;
          bm3 = bm2\<lparr>syncLayoutCancelTokenSource := next_token bm2, next_token := Suc (next_token bm2)\<rparr>
      in (syncLayoutCancelTokenSource bm3, bm3))"


subsection \<open>What a layout sync changes\<close>

text \<open>The fields of the manager that belong to the coordination of the runs.\<close>

definition sync_state :: "BufferManager \<Rightarrow> promise option \<times> token \<times> token set \<times> promise list \<times> token \<times> promise" where
  "sync_state bm =
     (syncLayoutPromise bm, syncLayoutCancelTokenSource bm, cancelled bm, resolved bm, next_token bm, next_promise bm)"

lemma sync_state_emit: "sync_state (emit e bm) = sync_state bm"
  by (simp add: sync_state_def emit_def)

lemma sync_state_initBufferForDocument: "sync_state (initBufferForDocument h doc bufId editor bm) = sync_state bm"
  by (cases editor) (simp_all add: sync_state_def initBufferForDocument_def emit_def Let_def)

lemma sync_state_init_unknown_document:
  "sync_state (snd (init_unknown_document h nv i e bm)) = sync_state bm"
proof (cases "createBuffer_reply nv i")
  case (error_code c)
  then show ?thesis
    by (simp add: init_unknown_document_def Let_def sync_state_emit)
next
  case (handle b)
  have "sync_state (bm'\<lparr>textDocumentToBufferId := m\<rparr>) = sync_state bm'" for bm' m
    by (simp add: sync_state_def)
  with handle show ?thesis
    by (simp add: init_unknown_document_def Let_def sync_state_emit sync_state_initBufferForDocument)
qed

lemma sync_state_createNeovimWindow:
  "sync_state (snd (createNeovimWindow w r b bm)) = sync_state bm"
  by (cases r) (simp_all add: createNeovimWindow_def Let_def sync_state_emit)

lemma sync_state_open_editor_window:
  "sync_state (open_editor_window h nv w i e bm) = sync_state bm"
proof -
  have upd: "sync_state (bm'\<lparr>textEditorToWinId := m, winIdToEditor := m'\<rparr>) = sync_state bm'" for bm' m m'
    by (simp add: sync_state_def)
  show ?thesis
    by (simp add: open_editor_window_def Let_def sync_state_emit upd sync_state_createNeovimWindow
        split: option.splits)
qed

lemma sync_state_sync_visible_editor:
  "sync_state (sync_visible_editor h nv w ie bm) = sync_state bm"
  by (simp add: sync_visible_editor_def Let_def sync_state_open_editor_window sync_state_emit
      sync_state_init_unknown_document)

lemma sync_state_fold_sync_visible_editor:
  "sync_state (fold (sync_visible_editor h nv w) ies bm) = sync_state bm"
  by (induction ies arbitrary: bm) (simp_all add: sync_state_sync_visible_editor)

lemma sync_state_syncLayout_open:
  "sync_state (syncLayout_open h nv w vis bm) = sync_state bm"
  by (simp add: syncLayout_open_def sync_state_fold_sync_visible_editor sync_state_emit)




lemma map_get_filter_keys:
  "map_get (filter (\<lambda>(k, v). P k) m) k' = (if P k' then map_get m k' else None)"
  by (induction m) (auto simp: map_get_def)


lemma map_get_None_iff: "(map_get m k = None) = (k \<notin> fst ` set m)"
  by (simp add: map_get_def map_of_eq_None_iff)

text \<open>The mapping tables through the first loop.\<close>

lemma tables_emit:
  "textDocumentToBufferId (emit e bm) = textDocumentToBufferId bm"
  "textEditorToWinId (emit e bm) = textEditorToWinId bm"
  "winIdToEditor (emit e bm) = winIdToEditor bm"
  by (simp_all add: emit_def)













text \<open>The clean-up loops.\<close>

lemma close_unused_windows_fold:
  "fst (fold (close_if_unused vis) es (ws0, bm0)) = ws0 @ map snd (filter (\<lambda>(e, w). e \<notin> set vis) es) \<and>
   (\<forall>e. map_get (textEditorToWinId (snd (fold (close_if_unused vis) es (ws0, bm0)))) e =
        (if e \<notin> set vis \<and> e \<in> fst ` set es then None else map_get (textEditorToWinId bm0) e)) \<and>
   (\<forall>w. map_get (winIdToEditor (snd (fold (close_if_unused vis) es (ws0, bm0)))) w =
        (if w \<in> set (map snd (filter (\<lambda>(e, w). e \<notin> set vis) es)) then None else map_get (winIdToEditor bm0) w)) \<and>
   textDocumentToBufferId (snd (fold (close_if_unused vis) es (ws0, bm0))) = textDocumentToBufferId bm0 \<and>
   sync_state (snd (fold (close_if_unused vis) es (ws0, bm0))) = sync_state bm0"
proof (induction es arbitrary: ws0 bm0)
  case Nil
  show ?case by simp
next
  case (Cons x es)
  obtain e w where x: "x = (e, w)" by (cases x)
  show ?case
  proof (cases "e \<in> set vis")
    case True
    then show ?thesis
      using Cons.IH [of ws0 bm0] by (auto simp: x)
  next
    case False
    have st: "sync_state ((emit l bm0)\<lparr>textEditorToWinId := m, winIdToEditor := m'\<rparr>) = sync_state bm0" for l m m'
      by (simp add: sync_state_def emit_def)
    from False show ?thesis
      using Cons.IH [of "ws0 @ [w]"
          "(emit (logger debug ''Editor viewColumn: ${editor.viewColumn}, winId: ${winId}, closing'') bm0)
             \<lparr>textEditorToWinId := map_delete e (textEditorToWinId bm0),
              winIdToEditor := map_delete w (winIdToEditor bm0)\<rparr>"]
      by (auto simp: x st map_get_map_delete tables_emit)
  qed
qed

lemma close_unused_windows_result:
  "fst (close_unused_windows vis bm) = map snd (filter (\<lambda>(e, w). e \<notin> set vis) (textEditorToWinId bm))"
  "map_get (textEditorToWinId (snd (close_unused_windows vis bm))) e =
     (if e \<notin> set vis then None else map_get (textEditorToWinId bm) e)"
  "map_get (winIdToEditor (snd (close_unused_windows vis bm))) w =
     (if w \<in> set (fst (close_unused_windows vis bm)) then None else map_get (winIdToEditor bm) w)"
  "textDocumentToBufferId (snd (close_unused_windows vis bm)) = textDocumentToBufferId bm"
  "sync_state (snd (close_unused_windows vis bm)) = sync_state bm"
  using close_unused_windows_fold [of vis "textEditorToWinId bm" "[]" bm]
  unfolding close_unused_windows_def
  by (auto simp: map_get_None_iff [symmetric])

lemma delete_unused_buffers_fold:
  "fst (fold (delete_if_unused h vis) es (bs0, bm0)) =
     bs0 @ map snd (filter (\<lambda>(d, b). unused_document h vis d) es) \<and>
   (\<forall>d. map_get (textDocumentToBufferId (snd (fold (delete_if_unused h vis) es (bs0, bm0)))) d =
        (if unused_document h vis d \<and> d \<in> fst ` set es then None else map_get (textDocumentToBufferId bm0) d)) \<and>
   textEditorToWinId (snd (fold (delete_if_unused h vis) es (bs0, bm0))) = textEditorToWinId bm0 \<and>
   winIdToEditor (snd (fold (delete_if_unused h vis) es (bs0, bm0))) = winIdToEditor bm0 \<and>
   sync_state (snd (fold (delete_if_unused h vis) es (bs0, bm0))) = sync_state bm0"
proof (induction es arbitrary: bs0 bm0)
  case Nil
  show ?case by simp
next
  case (Cons x es)
  obtain d b where x: "x = (d, b)" by (cases x)
  show ?case
  proof (cases "unused_document h vis d")
    case False
    then show ?thesis
      using Cons.IH [of bs0 bm0] by (auto simp: x)
  next
    case True
    have st: "sync_state ((emit l bm0)\<lparr>textDocumentToBufferId := m\<rparr>) = sync_state bm0" for l m
      by (simp add: sync_state_def emit_def)
    from True show ?thesis
      using Cons.IH [of "bs0 @ [b]"
          "(emit (logger debug ''Document: ${document.uri.toString()}, bufId: ${bufId}, deleting'') bm0)
             \<lparr>textDocumentToBufferId := map_delete d (textDocumentToBufferId bm0)\<rparr>"]
      by (auto simp: x st map_get_map_delete tables_emit)
  qed
qed

lemma delete_unused_buffers_result:
  "fst (delete_unused_buffers h vis bm) =
     map snd (filter (\<lambda>(d, b). unused_document h vis d) (textDocumentToBufferId bm))"
  "map_get (textDocumentToBufferId (snd (delete_unused_buffers h vis bm))) d =
     (if unused_document h vis d then None else map_get (textDocumentToBufferId bm) d)"
  "textEditorToWinId (snd (delete_unused_buffers h vis bm)) = textEditorToWinId bm"
  "winIdToEditor (snd (delete_unused_buffers h vis bm)) = winIdToEditor bm"
  "sync_state (snd (delete_unused_buffers h vis bm)) = sync_state bm"
  using delete_unused_buffers_fold [of h vis "textDocumentToBufferId bm" "[]" bm]
  unfolding delete_unused_buffers_def
  by (auto simp: map_get_None_iff [symmetric])


lemma syncLayout_cleanup_parts:
  assumes "syncLayout_cleanup h nv w bm = (ws, bs, bm_c)"
  shows "ws = map snd (filter (\<lambda>(e, w). e \<notin> set (visibleTextEditors h))
                 (textEditorToWinId (syncLayout_open h nv w (visibleTextEditors h) bm)))"
    and "bs = map snd (filter (\<lambda>(d, b). unused_document h (visibleTextEditors h) d)
                 (textDocumentToBufferId (syncLayout_open h nv w (visibleTextEditors h) bm)))"
    and "map_get (textEditorToWinId bm_c) e =
           (if e \<notin> set (visibleTextEditors h) then None
            else map_get (textEditorToWinId (syncLayout_open h nv w (visibleTextEditors h) bm)) e)"
    and "map_get (winIdToEditor bm_c) win =
           (if win \<in> set ws then None
            else map_get (winIdToEditor (syncLayout_open h nv w (visibleTextEditors h) bm)) win)"
    and "map_get (textDocumentToBufferId bm_c) d =
           (if unused_document h (visibleTextEditors h) d then None
            else map_get (textDocumentToBufferId (syncLayout_open h nv w (visibleTextEditors h) bm)) d)"
    and "sync_state bm_c = sync_state bm"
proof -
  let ?vis = "visibleTextEditors h"
  let ?bm1 = "emit (logger debug ''Clean up windows and buffers'') (syncLayout_open h nv w ?vis bm)"
  let ?cw = "close_unused_windows ?vis ?bm1"
  let ?db = "delete_unused_buffers h ?vis (snd ?cw)"
  from assms have ws: "ws = fst ?cw" and bs: "bs = fst ?db" and bm_c: "bm_c = snd ?db"
    by (simp_all add: syncLayout_cleanup_def Let_def split_def)
  show "ws = map snd (filter (\<lambda>(e, w). e \<notin> set ?vis) (textEditorToWinId (syncLayout_open h nv w ?vis bm)))"
    by (simp add: ws close_unused_windows_result tables_emit)
  show "bs = map snd (filter (\<lambda>(d, b). unused_document h ?vis d)
                 (textDocumentToBufferId (syncLayout_open h nv w ?vis bm)))"
    by (simp add: bs delete_unused_buffers_result close_unused_windows_result tables_emit)
  show "map_get (textEditorToWinId bm_c) e =
           (if e \<notin> set ?vis then None else map_get (textEditorToWinId (syncLayout_open h nv w ?vis bm)) e)"
    by (simp add: bm_c delete_unused_buffers_result close_unused_windows_result tables_emit)
  show "map_get (winIdToEditor bm_c) win =
           (if win \<in> set ws then None else map_get (winIdToEditor (syncLayout_open h nv w ?vis bm)) win)"
    by (simp add: bm_c ws delete_unused_buffers_result close_unused_windows_result(3) tables_emit)
  show "map_get (textDocumentToBufferId bm_c) d =
           (if unused_document h ?vis d then None
            else map_get (textDocumentToBufferId (syncLayout_open h nv w ?vis bm)) d)"
    by (simp add: bm_c delete_unused_buffers_result close_unused_windows_result tables_emit)
  show "sync_state bm_c = sync_state bm"
    by (simp add: bm_c delete_unused_buffers_result close_unused_windows_result sync_state_emit
        sync_state_syncLayout_open)
qed











lemma sent_since_later:
  assumes "prefix (trace bm) (trace bm1)" and "prefix (trace bm1) (trace bm2)"
  shows "set (sent_since bm1 bm2) \<subseteq> set (sent_since bm bm2)"
proof -
  from assms obtain t u where "trace bm1 = trace bm @ t" "trace bm2 = trace bm1 @ u"
    by (auto simp: prefix_def)
  then show ?thesis
    by (simp add: sent_since_def)
qed





text \<open>
  One backend buffer can be the buffer of two documents: a second
  \<^verbatim>\<open>external-buffer\<close> request for the same id under another name maps the document
  that the host opens for it to that id as well.
\<close>

definition shared_buffer_host :: vscode where
  "shared_buffer_host =
     \<lparr>textDocuments = [0, 1], visibleTextEditors = [2], activeTextEditor = Some 2,
      document_store = (\<lambda>d. \<lparr>uri = \<lparr>scheme = ''vscode-neovim'', authority = ''7'', uri_toString = ''vscode-neovim://7/a.txt''\<rparr>,
                              isClosed = (d = 1), eol = LF, getText = ''a''\<rparr>),
      editor_store = (\<lambda>e. \<lparr>document = (if e = 3 then 1 else 0), viewColumn = Some (int e),
                            options = \<lparr>insertSpaces = True, tabSize = 4, lineNumbers = On\<rparr>,
                            selection_active = \<lparr>pos_line = 0, pos_character = 0\<rparr>, visibleRanges = []\<rparr>),
      openTextDocument_reply =
        (\<lambda>u. case u of Uri_parse nm \<Rightarrow> None
                      | Uri_file_with nm sch n \<Rightarrow> if nm = ''a.txt'' then Some 0 else Some 1),
      showTextDocument_reply = (\<lambda>d. Some (if d = 0 then 1 else 3))\<rparr>"


lemma parseInt_7: "parseInt ''7'' = Num 7"
  by (simp add: parseInt_def is_white_space_def digit_of_def)

lemma shared_buffer_reachable:
  "textDocumentToBufferId
     (snd (BufferManager_handleExtensionRequest shared_buffer_host first_buffer_nvim ''external-buffer''
             (external_buffer_args ''b.txt'' ''7'' 1 8)
        (snd (BufferManager_handleExtensionRequest shared_buffer_host first_buffer_nvim ''external-buffer''
                (external_buffer_args ''a.txt'' ''7'' 1 8) new_BufferManager)))) =
   [(0, Num 7), (1, Num 7)]"
  by (simp add: BufferManager_handleExtensionRequest_def external_buffer_def attachNeovimExternalBuffer_def
      find_closeWinId_def buildExternalBufferUri_def isVscodeUriName_def BUFFER_NAME_PREFIX_def parseInt_7
      shared_buffer_host_def first_buffer_nvim_def new_BufferManager_def emit_def Let_def)











subsection \<open>The debounced runs of the layout sync\<close>

text \<open>
  \<^verbatim>\<open>syncLayoutDebounced\<close> is \<^verbatim>\<open>debounce(this.syncLayout, 200, { leading: false, trailing: true })\<close>:
  a call arms (or re-arms) a timer and keeps the latest argument; when the timer fires,
  \<^verbatim>\<open>syncLayout\<close> starts with that argument. A run that has started is suspended at its
  awaits, and other handlers run meanwhile; what a run does to the coordination state it
  does in its last synchronous stretch, so a run takes effect when it completes. The
  state of the system is the manager, the argument of the armed timer if there is one,
  and the tokens of the runs that have started and not completed. The calls of the
  debounced function considered are those of \<^verbatim>\<open>onDidChangeVisibleTextEditors\<close>;
  \<^verbatim>\<open>forceResync\<close>, which calls it with the current token, is not among the events.
\<close>

record scheduler =
  manager :: BufferManager
  syncLayoutDebounced :: "token option"
  running :: "token list"

definition startup :: scheduler where
  "startup = \<lparr>manager = new_BufferManager, syncLayoutDebounced = None, running = []\<rparr>"

text \<open>The events: the host reports a change of the visible editors; the timer fires; the
  run with the given token completes, having seen the given host and backend.\<close>

datatype event =
    visible_editors_changed
  | timer_fires
  | run_completes token vscode nvim int

fun step :: "event \<Rightarrow> scheduler \<Rightarrow> scheduler option" where
  "step visible_editors_changed s =
     (let called = onDidChangeVisibleTextEditors (manager s)
      in Some (s\<lparr>manager := snd called, syncLayoutDebounced := Some (fst called)\<rparr>))"
| "step timer_fires s =
     (case syncLayoutDebounced s of
        None \<Rightarrow> None
      | Some cancelToken \<Rightarrow> Some (s\<lparr>syncLayoutDebounced := None, running := running s @ [cancelToken]\<rparr>))"
| "step (run_completes cancelToken h nv neovimViewportWidth) s =
     (if cancelToken \<in> set (running s)
      then Some (s\<lparr>running := remove1 cancelToken (running s),
                   manager := syncLayout h nv neovimViewportWidth cancelToken (manager s)\<rparr>)
      else None)"

fun run :: "event list \<Rightarrow> scheduler \<Rightarrow> scheduler option" where
  "run [] s = Some s"
| "run (e # es) s = (case step e s of None \<Rightarrow> None | Some s' \<Rightarrow> run es s')"

text \<open>With no further change of the visible editors, the events that remain: the armed
  timer fires, and every run completes.\<close>

definition settle :: "vscode \<Rightarrow> nvim \<Rightarrow> int \<Rightarrow> scheduler \<Rightarrow> event list" where
  "settle h nv neovimViewportWidth s =
     (case syncLayoutDebounced s of
        None \<Rightarrow> map (\<lambda>t. run_completes t h nv neovimViewportWidth) (running s)
      | Some cancelToken \<Rightarrow>
          timer_fires # map (\<lambda>t. run_completes t h nv neovimViewportWidth) (running s @ [cancelToken]))"


lemma sync_state_syncLayout:
  "sync_state (syncLayout h nv w t bm) =
     (if t \<in> cancelled bm then sync_state bm
      else (None, syncLayoutCancelTokenSource bm, cancelled bm,
            resolved bm @ (case syncLayoutPromise bm of None \<Rightarrow> [] | Some p \<Rightarrow> [p]),
            next_token bm, next_promise bm))"
proof -
  let ?c = "syncLayout_cleanup h nv w bm"
  have eq: "?c = (fst ?c, fst (snd ?c), snd (snd ?c))"
    by simp
  have "sync_state (snd (snd ?c)) = sync_state bm"
    by (rule syncLayout_cleanup_parts(6) [OF eq])
  then show ?thesis
    by (auto simp: syncLayout_def Let_def syncLayout_complete_def sync_state_def emit_def resolve_promise_def
        split: option.splits)
qed

lemma sync_state_onDidChangeVisibleTextEditors:
  "sync_state (snd (onDidChangeVisibleTextEditors bm)) =
     ((case syncLayoutPromise bm of None \<Rightarrow> Some (next_promise bm) | Some p \<Rightarrow> Some p),
      next_token bm,
      insert (syncLayoutCancelTokenSource bm) (cancelled bm),
      resolved bm,
      Suc (next_token bm),
      (case syncLayoutPromise bm of None \<Rightarrow> Suc (next_promise bm) | Some p \<Rightarrow> next_promise bm))"
  "fst (onDidChangeVisibleTextEditors bm) = next_token bm"
  by (simp_all add: onDidChangeVisibleTextEditors_def Let_def sync_state_def emit_def split: option.splits)

text \<open>What holds of the coordination state after any sequence of events: tokens are
  handed out in order and all but the current one are cancelled; an armed timer carries
  the current token; promises are made and resolved in order, and the pending promise,
  if there is one, is the latest, not resolved, with a timer or a run with the current
  token ahead of it.\<close>

definition coordinated :: "scheduler \<Rightarrow> bool" where
  "coordinated s =
     (next_token (manager s) = Suc (syncLayoutCancelTokenSource (manager s)) \<and>
      cancelled (manager s) = {..<syncLayoutCancelTokenSource (manager s)} \<and>
      (\<forall>t. syncLayoutDebounced s = Some t \<longrightarrow> t = syncLayoutCancelTokenSource (manager s)) \<and>
      (\<forall>t \<in> set (running s). t \<le> syncLayoutCancelTokenSource (manager s)) \<and>
      (case syncLayoutPromise (manager s) of
         None \<Rightarrow> resolved (manager s) = [0..<next_promise (manager s)]
       | Some p \<Rightarrow>
           next_promise (manager s) = Suc p \<and> resolved (manager s) = [0..<p] \<and>
           (syncLayoutDebounced s = Some (syncLayoutCancelTokenSource (manager s)) \<or>
            syncLayoutCancelTokenSource (manager s) \<in> set (running s))))"

lemma coordinated_startup: "coordinated startup"
  by (simp add: coordinated_def startup_def new_BufferManager_def)

lemma coordinated_changed:
  assumes "coordinated s"
  shows "coordinated (s\<lparr>manager := snd (onDidChangeVisibleTextEditors (manager s)),
                        syncLayoutDebounced := Some (fst (onDidChangeVisibleTextEditors (manager s)))\<rparr>)"
proof -
  let ?bm = "manager s"
  let ?s' = "s\<lparr>manager := snd (onDidChangeVisibleTextEditors ?bm),
                syncLayoutDebounced := Some (fst (onDidChangeVisibleTextEditors ?bm))\<rparr>"
  from sync_state_onDidChangeVisibleTextEditors [of ?bm]
  have f: "syncLayoutPromise (manager ?s') =
             (case syncLayoutPromise ?bm of None \<Rightarrow> Some (next_promise ?bm) | Some p \<Rightarrow> Some p)"
    "syncLayoutCancelTokenSource (manager ?s') = next_token ?bm"
    "cancelled (manager ?s') = insert (syncLayoutCancelTokenSource ?bm) (cancelled ?bm)"
    "resolved (manager ?s') = resolved ?bm"
    "next_token (manager ?s') = Suc (next_token ?bm)"
    "next_promise (manager ?s') =
       (case syncLayoutPromise ?bm of None \<Rightarrow> Suc (next_promise ?bm) | Some p \<Rightarrow> next_promise ?bm)"
    "syncLayoutDebounced ?s' = Some (next_token ?bm)"
    "running ?s' = running s"
    by (simp_all add: sync_state_def)
  from assms have a: "next_token ?bm = Suc (syncLayoutCancelTokenSource ?bm)"
    "cancelled ?bm = {..<syncLayoutCancelTokenSource ?bm}"
    "\<forall>t \<in> set (running s). t \<le> syncLayoutCancelTokenSource ?bm"
    by (simp_all add: coordinated_def)
  have c: "insert (syncLayoutCancelTokenSource ?bm) {..<syncLayoutCancelTokenSource ?bm} =
           {..<Suc (syncLayoutCancelTokenSource ?bm)}"
    by (simp add: lessThan_Suc)
  have r: "\<forall>t \<in> set (running s). t \<le> Suc (syncLayoutCancelTokenSource ?bm)"
    using a(3) by auto
  show ?thesis
  proof (cases "syncLayoutPromise ?bm")
    case None
    with assms have "resolved ?bm = [0..<next_promise ?bm]"
      by (simp add: coordinated_def)
    with None show ?thesis
      unfolding coordinated_def f by (simp add: a c r)
  next
    case (Some p)
    with assms have "next_promise ?bm = Suc p \<and> resolved ?bm = [0..<p]"
      by (simp add: coordinated_def)
    with Some show ?thesis
      unfolding coordinated_def f by (simp add: a c r)
  qed
qed

lemma coordinated_fired:
  assumes "coordinated s" and "syncLayoutDebounced s = Some t"
  shows "coordinated (s\<lparr>syncLayoutDebounced := None, running := running s @ [t]\<rparr>)"
  using assms by (auto simp: coordinated_def split: option.splits)

lemma coordinated_completed:
  assumes "coordinated s" and "t \<in> set (running s)"
  shows "coordinated (s\<lparr>running := remove1 t (running s), manager := syncLayout h nv w t (manager s)\<rparr>)"
proof -
  let ?bm = "manager s"
  let ?cur = "syncLayoutCancelTokenSource ?bm"
  let ?s' = "s\<lparr>running := remove1 t (running s), manager := syncLayout h nv w t ?bm\<rparr>"
  from assms(1) have a: "next_token ?bm = Suc ?cur" "cancelled ?bm = {..<?cur}"
    "\<forall>t. syncLayoutDebounced s = Some t \<longrightarrow> t = ?cur"
    "\<forall>t \<in> set (running s). t \<le> ?cur"
    by (simp_all add: coordinated_def)
  have r: "\<forall>u \<in> set (remove1 t (running s)). u \<le> ?cur"
    using a(4) by (auto dest: notin_set_remove1)
  show ?thesis
  proof (cases "t \<in> cancelled ?bm")
    case True
    with sync_state_syncLayout [of h nv w t ?bm]
    have f: "syncLayoutPromise (manager ?s') = syncLayoutPromise ?bm"
      "syncLayoutCancelTokenSource (manager ?s') = ?cur"
      "cancelled (manager ?s') = cancelled ?bm"
      "resolved (manager ?s') = resolved ?bm"
      "next_token (manager ?s') = next_token ?bm"
      "next_promise (manager ?s') = next_promise ?bm"
      "syncLayoutDebounced ?s' = syncLayoutDebounced s"
      "running ?s' = remove1 t (running s)"
      by (simp_all add: sync_state_def)
    from True a(2) have ne: "t \<noteq> ?cur"
      by auto
    then have keep: "?cur \<in> set (running s) \<Longrightarrow> ?cur \<in> set (remove1 t (running s))"
      by simp
    from assms(1) show ?thesis
      unfolding coordinated_def f using r keep by (auto split: option.splits)
  next
    case False
    with sync_state_syncLayout [of h nv w t ?bm]
    have f: "syncLayoutPromise (manager ?s') = None"
      "syncLayoutCancelTokenSource (manager ?s') = ?cur"
      "cancelled (manager ?s') = cancelled ?bm"
      "resolved (manager ?s') = resolved ?bm @ (case syncLayoutPromise ?bm of None \<Rightarrow> [] | Some p \<Rightarrow> [p])"
      "next_token (manager ?s') = next_token ?bm"
      "next_promise (manager ?s') = next_promise ?bm"
      "syncLayoutDebounced ?s' = syncLayoutDebounced s"
      "running ?s' = remove1 t (running s)"
      by (simp_all add: sync_state_def)
    from assms(1) show ?thesis
      unfolding coordinated_def f using r by (auto split: option.splits)
  qed
qed

lemma coordinated_step:
  assumes "coordinated s" and "step e s = Some s'"
  shows "coordinated s'"
proof (cases e)
  case visible_editors_changed
  with assms(2) have "s' = s\<lparr>manager := snd (onDidChangeVisibleTextEditors (manager s)),
                     syncLayoutDebounced := Some (fst (onDidChangeVisibleTextEditors (manager s)))\<rparr>"
    by (auto simp: Let_def)
  with coordinated_changed [OF assms(1)] show ?thesis
    by simp
next
  case timer_fires
  with assms(2) obtain t where "syncLayoutDebounced s = Some t"
    and "s' = s\<lparr>syncLayoutDebounced := None, running := running s @ [t]\<rparr>"
    by (auto split: option.splits)
  with coordinated_fired [OF assms(1)] show ?thesis
    by simp
next
  case (run_completes t h nv w)
  with assms(2) have "t \<in> set (running s)"
    and "s' = s\<lparr>running := remove1 t (running s), manager := syncLayout h nv w t (manager s)\<rparr>"
    by (auto split: if_splits)
  with coordinated_completed [OF assms(1)] show ?thesis
    by simp
qed

lemma coordinated_run:
  "coordinated s \<Longrightarrow> run evs s = Some s' \<Longrightarrow> coordinated s'"
proof (induction evs arbitrary: s)
  case Nil
  then show ?case by simp
next
  case (Cons e evs)
  then show ?case
    by (auto split: option.splits dest: coordinated_step)
qed


lemma count_list_upt: "count_list [0..<k] p = (if p < k then 1 else 0)"
  by (induction k) auto

lemma run_append: "run (es @ fs) s = (case run es s of None \<Rightarrow> None | Some s' \<Rightarrow> run fs s')"
  by (induction es arbitrary: s) (auto split: option.splits)

lemma run_completes_all:
  "running s = ts \<Longrightarrow>
   \<exists>s'. run (map (\<lambda>t. run_completes t h nv w) ts) s = Some s' \<and> running s' = [] \<and>
        syncLayoutDebounced s' = syncLayoutDebounced s \<and>
        next_promise (manager s') = next_promise (manager s)"
proof (induction ts arbitrary: s)
  case Nil
  then show ?case by simp
next
  case (Cons t ts)
  let ?s1 = "s\<lparr>running := remove1 t (running s), manager := syncLayout h nv w t (manager s)\<rparr>"
  from Cons.prems have st: "step (run_completes t h nv w) s = Some ?s1" and r1: "running ?s1 = ts"
    by simp_all
  have np: "next_promise (manager ?s1) = next_promise (manager s)"
    using sync_state_syncLayout [of h nv w t "manager s"] by (simp add: sync_state_def split: if_splits)
  from Cons.IH [OF r1] obtain s' where
    "run (map (\<lambda>t. run_completes t h nv w) ts) ?s1 = Some s'" "running s' = []"
    "syncLayoutDebounced s' = syncLayoutDebounced ?s1" "next_promise (manager s') = next_promise (manager ?s1)"
    by blast
  with st np show ?case
    by simp
qed

lemma settle_quiescent:
  "\<exists>s'. run (settle h nv w s) s = Some s' \<and> running s' = [] \<and> syncLayoutDebounced s' = None \<and>
        next_promise (manager s') = next_promise (manager s)"
proof (cases "syncLayoutDebounced s")
  case None
  with run_completes_all [of s "running s" h nv w] show ?thesis
    by (auto simp: settle_def)
next
  case (Some t)
  let ?s1 = "s\<lparr>syncLayoutDebounced := None, running := running s @ [t]\<rparr>"
  from Some have st: "step timer_fires s = Some ?s1"
    by simp
  from run_completes_all [of ?s1 "running s @ [t]" h nv w] obtain s' where
    "run (map (\<lambda>t. run_completes t h nv w) (running s @ [t])) ?s1 = Some s'" "running s' = []"
    "syncLayoutDebounced s' = None" "next_promise (manager s') = next_promise (manager s)"
    by auto
  with Some st show ?thesis
    by (simp add: settle_def)
qed

lemma coordinated_quiescent:
  assumes "coordinated s" and "syncLayoutDebounced s = None" and "running s = []"
  shows "syncLayoutPromise (manager s) = None" and "resolved (manager s) = [0..<next_promise (manager s)]"
  using assms by (auto simp: coordinated_def split: option.splits)

lemma coordinated_counts:
  assumes "coordinated s"
  shows "count_list (resolved (manager s)) p =
           (if p < next_promise (manager s) \<and> syncLayoutPromise (manager s) \<noteq> Some p then 1 else 0)"
proof (cases "syncLayoutPromise (manager s)")
  case None
  with assms have "resolved (manager s) = [0..<next_promise (manager s)]"
    by (simp add: coordinated_def)
  with None show ?thesis
    by (simp add: count_list_upt)
next
  case (Some q)
  with assms have "next_promise (manager s) = Suc q" "resolved (manager s) = [0..<q]"
    by (simp_all add: coordinated_def)
  with Some show ?thesis
    by (auto simp: count_list_upt)
qed

text \<open>
  Claim C1. After any sequence of changes of the visible editors, firings of the
  debounce timer and completions of runs:
  a run whose token was cancelled by a newer change before it completes resolves
  nothing and leaves the shared promise as it is; a run that is not cancelled is the run
  with the token of the latest change, and it resolves the pending promise and clears
  the field; no promise is ever resolved twice; a promise that was made and is no longer
  the pending one has been resolved once; and when the timer has fired and the runs have
  completed (which \<open>settle\<close> brings about from any state) no promise is pending and every
  promise made has been resolved exactly once.
\<close>

theorem layout_promise_resolved_once:
  assumes "run evs startup = Some s"
  shows "(\<forall>t h nv w s'. step (run_completes t h nv w) s = Some s' \<longrightarrow>
            (if t \<in> cancelled (manager s)
             then resolved (manager s') = resolved (manager s) \<and>
                  syncLayoutPromise (manager s') = syncLayoutPromise (manager s)
             else t = syncLayoutCancelTokenSource (manager s) \<and>
                  syncLayoutPromise (manager s') = None \<and>
                  resolved (manager s') =
                    resolved (manager s) @ (case syncLayoutPromise (manager s) of None \<Rightarrow> [] | Some p \<Rightarrow> [p]))) \<and>
         (\<forall>p. count_list (resolved (manager s)) p \<le> 1) \<and>
         (\<forall>p. p < next_promise (manager s) \<longrightarrow>
            count_list (resolved (manager s)) p = (if syncLayoutPromise (manager s) = Some p then 0 else 1)) \<and>
         (syncLayoutDebounced s = None \<and> running s = [] \<longrightarrow> syncLayoutPromise (manager s) = None) \<and>
         (\<exists>s'. run (settle h0 nv0 w0 s) s = Some s' \<and>
               syncLayoutDebounced s' = None \<and> running s' = [] \<and>
               syncLayoutPromise (manager s') = None \<and>
               next_promise (manager s') = next_promise (manager s) \<and>
               (\<forall>p. p < next_promise (manager s') \<longrightarrow> count_list (resolved (manager s')) p = 1))"
proof -
  have inv: "coordinated s"
    using coordinated_run [OF coordinated_startup assms] .
  have completes: "if t \<in> cancelled (manager s)
             then resolved (manager s') = resolved (manager s) \<and>
                  syncLayoutPromise (manager s') = syncLayoutPromise (manager s)
             else t = syncLayoutCancelTokenSource (manager s) \<and>
                  syncLayoutPromise (manager s') = None \<and>
                  resolved (manager s') =
                    resolved (manager s) @ (case syncLayoutPromise (manager s) of None \<Rightarrow> [] | Some p \<Rightarrow> [p])"
    if "step (run_completes t h nv w) s = Some s'" for t h nv w s'
  proof -
    from that have t: "t \<in> set (running s)"
      and s': "manager s' = syncLayout h nv w t (manager s)"
      by (auto split: if_splits)
    from inv t have le: "t \<le> syncLayoutCancelTokenSource (manager s)"
      and c: "cancelled (manager s) = {..<syncLayoutCancelTokenSource (manager s)}"
      by (auto simp: coordinated_def)
    show ?thesis
      using sync_state_syncLayout [of h nv w t "manager s"] le
      by (auto simp: s' c sync_state_def)
  qed
  have twice: "count_list (resolved (manager s)) p \<le> 1" for p
    by (simp add: coordinated_counts [OF inv])
  have once: "count_list (resolved (manager s)) p = (if syncLayoutPromise (manager s) = Some p then 0 else 1)"
    if "p < next_promise (manager s)" for p
    using that by (simp add: coordinated_counts [OF inv])
  have quiet: "syncLayoutPromise (manager s) = None" if "syncLayoutDebounced s = None \<and> running s = []"
    using coordinated_quiescent(1) [OF inv] that by simp
  have settles: "\<exists>s'. run (settle h0 nv0 w0 s) s = Some s' \<and>
               syncLayoutDebounced s' = None \<and> running s' = [] \<and>
               syncLayoutPromise (manager s') = None \<and>
               next_promise (manager s') = next_promise (manager s) \<and>
               (\<forall>p. p < next_promise (manager s') \<longrightarrow> count_list (resolved (manager s')) p = 1)"
  proof -
    from settle_quiescent [of h0 nv0 w0 s] obtain s' where
      s': "run (settle h0 nv0 w0 s) s = Some s'" "running s' = []" "syncLayoutDebounced s' = None"
        "next_promise (manager s') = next_promise (manager s)"
      by blast
    have inv': "coordinated s'"
      using coordinated_run [OF inv s'(1)] .
    from coordinated_quiescent [OF inv' s'(3) s'(2)] s' show ?thesis
      by (auto simp: count_list_upt)
  qed
  show ?thesis
    using completes twice once quiet settles by blast
qed


text \<open>Two changes of the visible editors, the second while the run of the first is in
  flight; then the first run completes, then the second.\<close>

lemma coordination_after_syncLayout:
  "syncLayoutPromise (syncLayout h nv w t bm) = (if t \<in> cancelled bm then syncLayoutPromise bm else None)"
  "syncLayoutCancelTokenSource (syncLayout h nv w t bm) = syncLayoutCancelTokenSource bm"
  "cancelled (syncLayout h nv w t bm) = cancelled bm"
  "resolved (syncLayout h nv w t bm) =
     (if t \<in> cancelled bm then resolved bm
      else resolved bm @ (case syncLayoutPromise bm of None \<Rightarrow> [] | Some p \<Rightarrow> [p]))"
  "next_token (syncLayout h nv w t bm) = next_token bm"
  "next_promise (syncLayout h nv w t bm) = next_promise bm"
  using sync_state_syncLayout [of h nv w t bm] by (simp_all add: sync_state_def split: if_splits)

lemma coordination_after_change:
  "syncLayoutPromise (snd (onDidChangeVisibleTextEditors bm)) =
     (case syncLayoutPromise bm of None \<Rightarrow> Some (next_promise bm) | Some p \<Rightarrow> Some p)"
  "syncLayoutCancelTokenSource (snd (onDidChangeVisibleTextEditors bm)) = next_token bm"
  "cancelled (snd (onDidChangeVisibleTextEditors bm)) = insert (syncLayoutCancelTokenSource bm) (cancelled bm)"
  "resolved (snd (onDidChangeVisibleTextEditors bm)) = resolved bm"
  "next_token (snd (onDidChangeVisibleTextEditors bm)) = Suc (next_token bm)"
  "next_promise (snd (onDidChangeVisibleTextEditors bm)) =
     (case syncLayoutPromise bm of None \<Rightarrow> Suc (next_promise bm) | Some p \<Rightarrow> next_promise bm)"
  using sync_state_onDidChangeVisibleTextEditors(1) [of bm] by (simp_all add: sync_state_def)

definition changed_twice :: scheduler where
  "changed_twice =
     \<lparr>manager = snd (onDidChangeVisibleTextEditors (snd (onDidChangeVisibleTextEditors new_BufferManager))),
      syncLayoutDebounced = None, running = [1, 2]\<rparr>"

lemma run_changed_twice:
  "run [visible_editors_changed, timer_fires, visible_editors_changed, timer_fires] startup = Some changed_twice"
  by (simp add: startup_def changed_twice_def Let_def sync_state_onDidChangeVisibleTextEditors(2)
      coordination_after_change new_BufferManager_def)

lemma changed_twice_coordination:
  "cancelled (manager changed_twice) = {0, 1}"
  "syncLayoutPromise (manager changed_twice) = Some 0"
  "resolved (manager changed_twice) = []"
  "syncLayoutCancelTokenSource (manager changed_twice) = 2"
  by (auto simp: changed_twice_def coordination_after_change new_BufferManager_def)

theorem layout_promise_resolved_once_witness:
  "run [visible_editors_changed, timer_fires, visible_editors_changed, timer_fires] startup = Some changed_twice \<and>
   1 \<in> cancelled (manager changed_twice) \<and> 2 \<notin> cancelled (manager changed_twice) \<and>
   syncLayoutPromise (manager changed_twice) = Some 0 \<and>
   resolved (manager changed_twice) = [] \<and>
   resolved (syncLayout example_host first_buffer_nvim 80 1 (manager changed_twice)) = [] \<and>
   resolved (syncLayout example_host first_buffer_nvim 80 2
               (syncLayout example_host first_buffer_nvim 80 1 (manager changed_twice))) = [0] \<and>
   syncLayoutPromise (syncLayout example_host first_buffer_nvim 80 2
               (syncLayout example_host first_buffer_nvim 80 1 (manager changed_twice))) = None"
proof -
  let ?h = example_host and ?nv = first_buffer_nvim
  let ?first = "changed_twice\<lparr>running := [2], manager := syncLayout ?h ?nv 80 1 (manager changed_twice)\<rparr>"
  let ?second = "?first\<lparr>running := [], manager := syncLayout ?h ?nv 80 2 (manager ?first)\<rparr>"
  have step1: "step (run_completes 1 ?h ?nv 80) changed_twice = Some ?first"
    by (simp add: changed_twice_def)
  have run1: "run ([visible_editors_changed, timer_fires, visible_editors_changed, timer_fires] @
                   [run_completes 1 ?h ?nv 80]) startup = Some ?first"
    unfolding run_append run_changed_twice by (simp add: changed_twice_def)
  have step2: "step (run_completes 2 ?h ?nv 80) ?first = Some ?second"
    by (simp add: changed_twice_def)
  have c1: "1 \<in> cancelled (manager changed_twice)" and c2: "2 \<notin> cancelled (manager changed_twice)"
    by (simp_all add: changed_twice_coordination)
  have c2': "2 \<notin> cancelled (manager ?first)"
    by (simp add: coordination_after_syncLayout changed_twice_coordination)
  note first = layout_promise_resolved_once [OF run_changed_twice, of ?h ?nv 80, THEN conjunct1,
      rule_format, OF step1]
  note second = layout_promise_resolved_once [OF run1, of ?h ?nv 80, THEN conjunct1, rule_format, OF step2]
  from first c1 have r1: "resolved (manager ?first) = resolved (manager changed_twice)"
    "syncLayoutPromise (manager ?first) = syncLayoutPromise (manager changed_twice)"
    by simp_all
  from second c2' have r2: "syncLayoutPromise (manager ?second) = None"
    "resolved (manager ?second) =
       resolved (manager ?first) @ (case syncLayoutPromise (manager ?first) of None \<Rightarrow> [] | Some p \<Rightarrow> [p])"
    by simp_all
  from r1 r2 c1 c2 show ?thesis
    by (simp add: run_changed_twice changed_twice_coordination del: run.simps)
qed


end
